theory Spec2Isabelle
  imports Complex_Main
begin

section \<open>Numbers, positions and the random source\<close>

text \<open>
  The analytics engine of the balloon tracker works on JavaScript numbers, which are
  IEEE doubles. Two models of them are used. The grid, the density clustering and the
  centroid clustering are modelled on mathematical reals, the formulas of the source
  evaluated exactly: there a running minimum that starts at \<open>Infinity\<close> is a
  \<open>real option\<close> whose \<open>None\<close> is \<open>Infinity\<close>, and a quotient \<open>0 / 0\<close> (\<open>NaN\<close>) is a
  branch of its own. Rounding can make \<open>haversineDistance\<close> return \<open>NaN\<close> where the exact
  formula returns a number. The distance itself and the silhouette scoring, whose
  results that changes, are therefore also modelled on the type \<open>jsnum\<close> below, which
  has the values \<open>NaN\<close>, \<open>Infinity\<close> and \<open>-Infinity\<close> beside the reals. The sign of a
  zero is not modelled, and a finite double is read as the real it denotes.

  A position is the array \<open>[latitude, longitude, altitude]\<close>; the clustering code
  projects it to the pair \<open>[latitude, longitude]\<close>.
\<close>

type_synonym position = "real \<times> real \<times> real"
type_synonym point = "real \<times> real"

text \<open>\<open>d < minDistance\<close> and \<open>Math.min(minDistance, d)\<close> for a minimum that may still be \<open>Infinity\<close>.\<close>

definition lt_inf :: "real \<Rightarrow> real option \<Rightarrow> bool" where
  "lt_inf d m = (case m of None \<Rightarrow> True | Some x \<Rightarrow> d < x)"

definition min_inf :: "real option \<Rightarrow> real \<Rightarrow> real option" where
  "min_inf m d = (case m of None \<Rightarrow> Some d | Some x \<Rightarrow> Some (min x d))"

text \<open>JavaScript numbers with their special values, and the operations the scoring uses.\<close>

datatype jsnum = Number real | PosInfinity | NegInfinity | NaN

fun js_neg :: "jsnum \<Rightarrow> jsnum" where
  "js_neg (Number a) = Number (- a)"
| "js_neg PosInfinity = NegInfinity"
| "js_neg NegInfinity = PosInfinity"
| "js_neg NaN = NaN"

fun js_add :: "jsnum \<Rightarrow> jsnum \<Rightarrow> jsnum" where
  "js_add (Number a) (Number b) = Number (a + b)"
| "js_add NaN y = NaN"
| "js_add x NaN = NaN"
| "js_add PosInfinity NegInfinity = NaN"
| "js_add NegInfinity PosInfinity = NaN"
| "js_add PosInfinity y = PosInfinity"
| "js_add x PosInfinity = PosInfinity"
| "js_add NegInfinity y = NegInfinity"
| "js_add x NegInfinity = NegInfinity"

definition js_sub :: "jsnum \<Rightarrow> jsnum \<Rightarrow> jsnum" where
  "js_sub x y = js_add x (js_neg y)"

text \<open>Division; a zero divisor is taken as \<open>+0\<close>.\<close>

fun js_div :: "jsnum \<Rightarrow> jsnum \<Rightarrow> jsnum" where
  "js_div (Number a) (Number b) =
     (if b \<noteq> 0 then Number (a / b)
      else if a = 0 then NaN
      else if 0 < a then PosInfinity else NegInfinity)"
| "js_div NaN y = NaN"
| "js_div x NaN = NaN"
| "js_div (Number a) y = Number 0"
| "js_div PosInfinity (Number b) = (if 0 \<le> b then PosInfinity else NegInfinity)"
| "js_div NegInfinity (Number b) = (if 0 \<le> b then NegInfinity else PosInfinity)"
| "js_div x y = NaN"

text \<open>\<open>x < y\<close>; every comparison with \<open>NaN\<close> is false.\<close>

fun js_less :: "jsnum \<Rightarrow> jsnum \<Rightarrow> bool" where
  "js_less (Number a) (Number b) = (a < b)"
| "js_less NaN y = False"
| "js_less x NaN = False"
| "js_less x NegInfinity = False"
| "js_less PosInfinity y = False"
| "js_less x y = True"

text \<open>\<open>Math.max\<close> and \<open>Math.min\<close> of two numbers: \<open>NaN\<close> when either is.\<close>

fun js_max :: "jsnum \<Rightarrow> jsnum \<Rightarrow> jsnum" where
  "js_max NaN y = NaN"
| "js_max x NaN = NaN"
| "js_max x y = (if js_less x y then y else x)"

fun js_min :: "jsnum \<Rightarrow> jsnum \<Rightarrow> jsnum" where
  "js_min NaN y = NaN"
| "js_min x NaN = NaN"
| "js_min x y = (if js_less y x then y else x)"

text \<open>
  \<open>Math.random()\<close> returns a number in \<open>[0, 1)\<close> and advances a generator that is global
  to the page. The type \<open>rand01\<close> holds the values it can return; the generator is the
  sequence of values its successive calls will return, together with the number of calls
  made so far. No function of the source takes the generator as an argument: the two
  extra arguments of the models below stand for that hidden state.
\<close>

typedef rand01 = "{r :: real. 0 \<le> r \<and> r < 1}"
  by (rule exI [of _ 0]) simp

setup_lifting type_definition_rand01

lift_definition rand_zero :: rand01 is "0 :: real"
  by simp

lift_definition rand_half :: rand01 is "1 / 2 :: real"
  by simp

type_synonym rng = "nat \<Rightarrow> rand01"

definition Math_random :: "rng \<Rightarrow> nat \<Rightarrow> real \<times> nat" where
  "Math_random rs n = (Rep_rand01 (rs n), Suc n)"


definition rng_half :: rng where
  "rng_half = (\<lambda>i. rand_half)"

definition rng_zero_half :: rng where
  "rng_zero_half = (\<lambda>i. if i = 0 then rand_zero else rand_half)"

definition rng_half_zero :: rng where
  "rng_half_zero = (\<lambda>i. if i < 2 then rand_half else rand_zero)"

section \<open>Geodesy utilities\<close>

text \<open>\<open>Math.atan2(y, x)\<close> on the reals.\<close>

definition atan2 :: "real \<Rightarrow> real \<Rightarrow> real" where
  "atan2 y x =
     (if 0 < x then arctan (y / x)
      else if x < 0 then (if 0 \<le> y then arctan (y / x) + pi else arctan (y / x) - pi)
      else if 0 < y then pi / 2
      else if y < 0 then - (pi / 2)
      else 0)"

definition haversineDistance :: "real \<Rightarrow> real \<Rightarrow> real \<Rightarrow> real \<Rightarrow> real" where
  "haversineDistance lat1 lon1 lat2 lon2 =
     (let R = 6371;
          dLat = (lat2 - lat1) * pi / 180;
          dLon = (lon2 - lon1) * pi / 180;
          a = sin (dLat / 2) * sin (dLat / 2) +
              cos (lat1 * pi / 180) * cos (lat2 * pi / 180) *
              sin (dLon / 2) * sin (dLon / 2);
          c = 2 * atan2 (sqrt a) (sqrt (1 - a));
          distance = R * c
      in distance)"

text \<open>The local constant \<open>a\<close> of \<open>haversineDistance\<close>, named for the proofs.\<close>

definition hav_a :: "real \<Rightarrow> real \<Rightarrow> real \<Rightarrow> real \<Rightarrow> real" where
  "hav_a lat1 lon1 lat2 lon2 =
     sin ((lat2 - lat1) * pi / 180 / 2) * sin ((lat2 - lat1) * pi / 180 / 2) +
     cos (lat1 * pi / 180) * cos (lat2 * pi / 180) *
     sin ((lon2 - lon1) * pi / 180 / 2) * sin ((lon2 - lon1) * pi / 180 / 2)"

text \<open>
  On the machine the value of \<open>a\<close> is a double that can differ from the exact value by
  rounding, and \<open>Math.sqrt\<close> of a negative number is \<open>NaN\<close>. \<open>haversineFromA\<close> is the rest
  of \<open>haversineDistance\<close> (the lines that compute \<open>c\<close> and \<open>distance\<close>) applied to the
  value computed for \<open>a\<close>; a \<open>NaN\<close> operand makes \<open>Math.atan2\<close> and the product \<open>NaN\<close>.
  \<open>haversineDistance_fp\<close> is \<open>haversineDistance\<close> on a machine whose computation of \<open>a\<close>
  is the function \<open>fa\<close>, which is left open: the theorems about it hold for every
  rounding. With the exact \<open>a\<close> it returns the exact distance (\<open>exactDistance\<close>).
\<close>

definition Math_sqrt :: "real \<Rightarrow> jsnum" where
  "Math_sqrt x = (if x < 0 then NaN else Number (sqrt x))"

definition haversineFromA :: "real \<Rightarrow> jsnum" where
  "haversineFromA a =
     (case Math_sqrt a of
        Number x \<Rightarrow>
          (case Math_sqrt (1 - a) of
             Number y \<Rightarrow> Number (6371 * (2 * atan2 x y))
           | _ \<Rightarrow> NaN)
      | _ \<Rightarrow> NaN)"

type_synonym distanceFn = "real \<Rightarrow> real \<Rightarrow> real \<Rightarrow> real \<Rightarrow> jsnum"

definition haversineDistance_fp ::
  "(real \<Rightarrow> real \<Rightarrow> real \<Rightarrow> real \<Rightarrow> real) \<Rightarrow> distanceFn" where
  "haversineDistance_fp fa lat1 lon1 lat2 lon2 = haversineFromA (fa lat1 lon1 lat2 lon2)"

definition exactDistance :: distanceFn where
  "exactDistance lat1 lon1 lat2 lon2 = Number (haversineDistance lat1 lon1 lat2 lon2)"

text \<open>The length of one degree of a great circle, in kilometres.\<close>

definition kmPerDegree :: real where
  "kmPerDegree = 6371 * pi / 180"

section \<open>Coverage grid analyzer\<close>

record gridCell =
  cell_covered :: bool
  cell_count :: nat
  cell_lat :: real
  cell_lng :: real

text \<open>
  The loop \<open>for (let x = lo; x < hi; x += step)\<close> of \<open>generateEarthGrid\<close>, collecting
  the values of \<open>x\<close>. With a step that is not positive the loop does not end; the model
  then has no value.
\<close>

partial_function (option) stepsFrom :: "int \<Rightarrow> int \<Rightarrow> int \<Rightarrow> int list option" where
  "stepsFrom x hi step =
     (if x < hi then Option.bind (stepsFrom (x + step) hi step) (\<lambda>rest. Some (x # rest))
      else Some [])"

definition generateEarthGrid :: "int \<Rightarrow> int \<Rightarrow> gridCell list list option" where
  "generateEarthGrid latStep lngStep =
     Option.bind (stepsFrom (- 90) 90 latStep) (\<lambda>lats.
     Option.bind (stepsFrom (- 180) 180 lngStep) (\<lambda>lngs.
       Some (map (\<lambda>la. map (\<lambda>lo.
                \<lparr>cell_covered = False, cell_count = 0,
                 cell_lat = real_of_int la, cell_lng = real_of_int lo\<rparr>) lngs) lats)))"

text \<open>The body of \<open>positions.forEach\<close> in \<open>calculateCoverageMetrics\<close>.\<close>

definition markPosition :: "gridCell list list \<Rightarrow> position \<Rightarrow> gridCell list list" where
  "markPosition grid pos =
     (let la = fst pos; lo = fst (snd pos);
          latIndex = \<lfloor>(90 + la) / 15\<rfloor>;
          lngIndex = \<lfloor>(180 + lo) / 30\<rfloor>
      in if latIndex \<ge> 0 \<and> latIndex < 12 \<and> lngIndex \<ge> 0 \<and> lngIndex < 12
         then (let row = grid ! nat latIndex; c = row ! nat lngIndex
               in grid[nat latIndex :=
                    row[nat lngIndex := c\<lparr>cell_count := cell_count c + 1, cell_covered := True\<rparr>]])
         else grid)"

definition gridIndices :: "(nat \<times> nat) list" where
  "gridIndices = concat (map (\<lambda>i. map (\<lambda>j. (i, j)) [0..<12]) [0..<12])"

definition cellCenterLat :: "nat \<Rightarrow> real" where
  "cellCenterLat latIndex = - 90 + (real latIndex * 15) + 7.5"

definition cellCenterLng :: "nat \<Rightarrow> real" where
  "cellCenterLng lngIndex = - 180 + (real lngIndex * 30) + 15"

definition estimateGapSize :: "gridCell list list \<Rightarrow> nat \<Rightarrow> nat \<Rightarrow> real option" where
  "estimateGapSize grid latIndex lngIndex =
     fold (\<lambda>(i, j) minDistance.
             if cell_covered (grid ! i ! j)
             then min_inf minDistance
                    (haversineDistance (cellCenterLat latIndex) (cellCenterLng lngIndex)
                                       (cellCenterLat i) (cellCenterLng j))
             else minDistance)
          gridIndices None"

record coverageMetrics =
  density :: real
  coveredPercentage :: real
  maxGapDistance :: "real option"
  maxGapLocation :: "real \<times> real"
  gridDistribution :: "gridCell list"

record coverageLoop =
  coveredCells :: real
  totalCells :: real
  maxGap :: "real option"
  maxGapLat :: real
  maxGapLng :: real
  distribution :: "gridCell list"

text \<open>
  \<open>gapSize > maxGapDistance\<close>, where either side may be \<open>Infinity\<close> (\<open>None\<close>): the
  running maximum starts at \<open>0\<close> and takes the value \<open>Infinity\<close> when no cell is covered.
\<close>

definition gt_inf :: "real option \<Rightarrow> real option \<Rightarrow> bool" where
  "gt_inf g m = (case m of None \<Rightarrow> False
                 | Some y \<Rightarrow> (case g of None \<Rightarrow> True | Some x \<Rightarrow> x > y))"

definition coverageCell :: "gridCell list list \<Rightarrow> nat \<times> nat \<Rightarrow> coverageLoop \<Rightarrow> coverageLoop" where
  "coverageCell grid ij st =
     (let latIndex = fst ij; lngIndex = snd ij;
          cell = grid ! latIndex ! lngIndex;
          latCenter = cellCenterLat latIndex;
          cellWeight = cos (latCenter * pi / 180);
          st1 = st\<lparr>totalCells := totalCells st + cellWeight\<rparr>;
          st2 = (if cell_covered cell
                 then st1\<lparr>coveredCells := coveredCells st1 + cellWeight\<rparr>
                 else (let gapSize = estimateGapSize grid latIndex lngIndex
                       in if gt_inf gapSize (maxGap st1)
                          then st1\<lparr>maxGap := gapSize,
                                   maxGapLat := cellCenterLat latIndex,
                                   maxGapLng := cellCenterLng lngIndex\<rparr>
                          else st1))
      in st2\<lparr>distribution := distribution st2 @
                [\<lparr>cell_covered = cell_covered cell, cell_count = cell_count cell,
                  cell_lat = cellCenterLat latIndex, cell_lng = cellCenterLng lngIndex\<rparr>]\<rparr>)"

definition calculateCoverageMetrics :: "position list \<Rightarrow> coverageMetrics option" where
  "calculateCoverageMetrics positions =
     (let earthSurfaceArea = 510100000;
          dens = real (length positions) / (earthSurfaceArea / 1000000)
      in Option.bind (generateEarthGrid 15 30) (\<lambda>grid0.
           let grid = fold (\<lambda>pos g. markPosition g pos) positions grid0;
               st = fold (coverageCell grid) gridIndices
                      \<lparr>coveredCells = 0, totalCells = 0, maxGap = Some 0,
                       maxGapLat = 0, maxGapLng = 0, distribution = []\<rparr>
           in Some \<lparr>density = dens,
                    coveredPercentage = (coveredCells st / totalCells st) * 100,
                    maxGapDistance = maxGap st,
                    maxGapLocation = (maxGapLat st, maxGapLng st),
                    gridDistribution = distribution st\<rparr>))"

section \<open>Density and neighbor analyzer\<close>

text \<open>The closure \<open>getNeighbors\<close> of \<open>calculateClusteringMetrics\<close>, with \<open>epsilon = 500\<close>.\<close>

definition getNeighbors :: "position list \<Rightarrow> nat \<Rightarrow> nat list" where
  "getNeighbors positions pointIndex =
     filter (\<lambda>i. i \<noteq> pointIndex \<and>
                 haversineDistance (fst (positions ! pointIndex)) (fst (snd (positions ! pointIndex)))
                                   (fst (positions ! i)) (fst (snd (positions ! i))) \<le> 500)
            [0..<length positions]"

text \<open>
  The loop \<open>for (const neighbor of pointNeighbors)\<close>: a neighbour that is neither visited
  nor already in the seed set is pushed onto the seed set.
\<close>

definition pushNeighbors :: "bool list \<Rightarrow> nat list \<Rightarrow> nat list \<Rightarrow> nat list" where
  "pushNeighbors visited pointNeighbors seedSet =
     fold (\<lambda>neighbor ss. if \<not> visited ! neighbor \<and> neighbor \<notin> set ss then ss @ [neighbor] else ss)
          pointNeighbors seedSet"

text \<open>The first half of the body of the expansion loop: visiting \<open>currentPoint\<close>.\<close>

definition visitPoint :: "position list \<Rightarrow> nat \<Rightarrow> bool list \<Rightarrow> nat list \<Rightarrow> bool list \<times> nat list" where
  "visitPoint positions currentPoint visited seedSet =
     (if \<not> visited ! currentPoint
      then (let visited1 = visited[currentPoint := True];
                pointNeighbors = getNeighbors positions currentPoint
            in if length pointNeighbors \<ge> 3 - 1
               then (visited1, pushNeighbors visited1 pointNeighbors seedSet)
               else (visited1, seedSet))
      else (visited, seedSet))"

lemma pushNeighbors_measure:
  assumes "\<forall>i \<in> set ns. i < n"
  shows "card ({0..<n} - set (pushNeighbors visited ns ss)) + length (pushNeighbors visited ns ss)
         = card ({0..<n} - set ss) + length ss"
  using assms
proof (induction ns arbitrary: ss)
  case Nil
  then show ?case by (simp add: pushNeighbors_def)
next
  case (Cons a ns)
  have step: "pushNeighbors visited (a # ns) ss =
              pushNeighbors visited ns (if \<not> visited ! a \<and> a \<notin> set ss then ss @ [a] else ss)"
    by (simp add: pushNeighbors_def)
  show ?case
  proof (cases "\<not> visited ! a \<and> a \<notin> set ss")
    case True
    have a: "a \<in> {0..<n} - set ss" using True Cons.prems by simp
    have "{0..<n} - set (ss @ [a]) = ({0..<n} - set ss) - {a}" by auto
    then have "card ({0..<n} - set (ss @ [a])) = card ({0..<n} - set ss) - 1"
      using a by simp
    moreover have "0 < card ({0..<n} - set ss)"
      using a by (metis card_gt_0_iff empty_iff finite_Diff finite_atLeastLessThan)
    ultimately have "card ({0..<n} - set (ss @ [a])) + length (ss @ [a])
                     = card ({0..<n} - set ss) + length ss" by simp
    then show ?thesis using Cons.IH [of "ss @ [a]"] Cons.prems True step by simp
  next
    case False
    then show ?thesis using Cons.IH [of ss] Cons.prems step by auto
  qed
qed

lemma getNeighbors_bound: "\<forall>i \<in> set (getNeighbors positions p). i < length positions"
  by (simp add: getNeighbors_def)

lemma visitPoint_measure:
  assumes "visitPoint positions p visited seedSet = (visited', seedSet')"
  shows "card ({0..<length positions} - set seedSet') + length seedSet'
         = card ({0..<length positions} - set seedSet) + length seedSet"
  using assms pushNeighbors_measure [OF getNeighbors_bound]
  by (auto simp: visitPoint_def Let_def split: if_splits)

lemma pushNeighbors_length: "length ss \<le> length (pushNeighbors visited ns ss)"
proof (induction ns arbitrary: ss)
  case Nil
  then show ?case by (simp add: pushNeighbors_def)
next
  case (Cons a ns)
  have "pushNeighbors visited (a # ns) ss =
        pushNeighbors visited ns (if \<not> visited ! a \<and> a \<notin> set ss then ss @ [a] else ss)"
    by (simp add: pushNeighbors_def)
  then show ?case
    using Cons.IH [of "ss @ [a]"] Cons.IH [of ss] by (auto split: if_splits)
qed

lemma visitPoint_length:
  assumes "visitPoint positions p visited seedSet = (visited', seedSet')"
  shows "length seedSet \<le> length seedSet'"
  using assms pushNeighbors_length
  by (auto simp: visitPoint_def Let_def split: if_splits)

text \<open>
  The expansion loop \<open>for (let j = 0; j < seedSet.length; j++)\<close>. The seed set grows while
  the loop runs; it ends because the seed set never holds an index twice.
\<close>

function expandCluster ::
  "position list \<Rightarrow> int \<Rightarrow> nat \<Rightarrow> nat list \<Rightarrow> bool list \<Rightarrow> int list \<Rightarrow> bool list \<times> int list" where
  "expandCluster positions clusterId j seedSet visited clusterAssignments =
     (if j < length seedSet
      then (let currentPoint = seedSet ! j;
                vs = visitPoint positions currentPoint visited seedSet;
                clusterAssignments1 =
                  (if clusterAssignments ! currentPoint = - 1
                   then clusterAssignments[currentPoint := clusterId]
                   else clusterAssignments)
            in expandCluster positions clusterId (Suc j) (snd vs) (fst vs) clusterAssignments1)
      else (visited, clusterAssignments))"
  by pat_completeness auto

termination
proof (relation "measure (\<lambda>(positions, clusterId, j, seedSet, visited, clusterAssignments).
                   card ({0..<length positions} - set seedSet) + length seedSet - j)")
  show "wf (measure (\<lambda>(positions, clusterId, j, seedSet, visited, clusterAssignments).
                   card ({0..<length positions} - set seedSet) + length seedSet - j))"
    by simp
next
  fix positions :: "position list" and clusterId :: int and j :: nat and seedSet :: "nat list"
    and visited :: "bool list" and clusterAssignments :: "int list"
    and x xa xb
  assume j: "j < length seedSet"
    and x: "x = seedSet ! j"
    and xa: "xa = visitPoint positions x visited seedSet"
  obtain v s where vs: "visitPoint positions x visited seedSet = (v, s)"
    by (cases "visitPoint positions x visited seedSet")
  have m: "card ({0..<length positions} - set s) + length s
           = card ({0..<length positions} - set seedSet) + length seedSet"
    by (rule visitPoint_measure [OF vs])
  have l: "length seedSet \<le> length s" by (rule visitPoint_length [OF vs])
  show "((positions, clusterId, Suc j, snd xa, fst xa, xb),
         (positions, clusterId, j, seedSet, visited, clusterAssignments))
        \<in> measure (\<lambda>(positions, clusterId, j, seedSet, visited, clusterAssignments).
                   card ({0..<length positions} - set seedSet) + length seedSet - j)"
    using j m l by (simp add: xa vs)
qed

text \<open>The body of the outer loop \<open>for (let i = 0; i < positions.length; i++)\<close>.\<close>

definition dbscanStep ::
  "position list \<Rightarrow> nat \<Rightarrow> bool list \<times> int list \<times> int \<Rightarrow> bool list \<times> int list \<times> int" where
  "dbscanStep positions i st =
     (let visited = fst st; clusterAssignments = fst (snd st); clusterCount = snd (snd st)
      in if visited ! i then st
         else (let visited1 = visited[i := True];
                   neighbors = getNeighbors positions i
               in if length neighbors < 3 - 1
                  then (visited1, clusterAssignments[i := - 1], clusterCount)
                  else (let clusterId = clusterCount;
                            r = expandCluster positions clusterId 0 neighbors visited1
                                  (clusterAssignments[i := clusterId])
                        in (fst r, snd r, clusterCount + 1))))"

text \<open>The counting loop \<open>for (const assignment of clusterAssignments)\<close>.\<close>

definition countAssignment :: "int \<Rightarrow> nat list \<times> nat \<Rightarrow> nat list \<times> nat" where
  "countAssignment assignment st =
     (if assignment = - 1 then (fst st, snd st + 1)
      else ((fst st)[nat assignment := fst st ! nat assignment + 1], snd st))"

record clusteringMetrics =
  clusterCount :: int
  avgClusterSize :: real
  isolationIndex :: real
  largestCluster :: nat
  clusterAssignments :: "int list option"
  clusterSizes :: "nat list option"

text \<open>
  The early return for an empty list has no \<open>clusterAssignments\<close> and no \<open>clusterSizes\<close>
  field: they are \<open>None\<close> there.
\<close>

definition calculateClusteringMetrics :: "position list \<Rightarrow> clusteringMetrics" where
  "calculateClusteringMetrics positions =
     (if length positions = 0
      then \<lparr>clusterCount = 0, avgClusterSize = 0, isolationIndex = 0, largestCluster = 0,
            clusterAssignments = None, clusterSizes = None\<rparr>
      else (let st = fold (dbscanStep positions) [0..<length positions]
                       (replicate (length positions) False, replicate (length positions) (- 1), 0);
                assignments = fst (snd st);
                count = snd (snd st);
                cs = fold countAssignment assignments (replicate (nat count) 0, 0);
                sizes = fst cs;
                noiseCount = snd cs;
                totalInClusters = length positions - noiseCount
            in \<lparr>clusterCount = count,
                avgClusterSize = (if count > 0 then real totalInClusters / real_of_int count else 0),
                isolationIndex = (if length positions > 0
                                  then real noiseCount / real (length positions) else 0),
                largestCluster = (if length sizes > 0 then Max (set sizes) else 0),
                clusterAssignments = Some assignments,
                clusterSizes = Some sizes\<rparr>))"

text \<open>Every entry is the noise mark \<open>-1\<close> or a cluster id below \<open>c\<close>.\<close>

definition validIds :: "int \<Rightarrow> int list \<Rightarrow> bool" where
  "validIds c asg = list_all (\<lambda>a. a = - 1 \<or> (0 \<le> a \<and> a < c)) asg"

section \<open>Centroid clustering engine\<close>

subsection \<open>Seeding\<close>

text \<open>
  The inner loop of the \<open>distances\<close> computation of \<open>initializeCentroids\<close>: the distance
  from a point to its nearest centroid, \<open>Infinity\<close> when there is no centroid.
\<close>

definition nearestDistance :: "point \<Rightarrow> point list \<Rightarrow> real option" where
  "nearestDistance p centroids =
     fold (\<lambda>centroid minDistance.
             min_inf minDistance (haversineDistance (fst p) (snd p) (fst centroid) (snd centroid)))
          centroids None"

text \<open>
  The loop \<open>for (let j = 0; j < probabilities.length; j++)\<close>: the first index at which the
  cumulative probability reaches \<open>randomValue\<close>, and \<open>0\<close> (the initial value of
  \<open>nextCentroid\<close>) when there is none.
\<close>

fun pickNext :: "real list \<Rightarrow> nat \<Rightarrow> real \<Rightarrow> real \<Rightarrow> nat" where
  "pickNext [] j cumulativeProbability randomValue = 0"
| "pickNext (p # ps) j cumulativeProbability randomValue =
     (let cumulativeProbability1 = cumulativeProbability + p
      in if cumulativeProbability1 \<ge> randomValue then j
         else pickNext ps (Suc j) cumulativeProbability1 randomValue)"

text \<open>
  One pass of the loop \<open>for (let i = 1; i < k; i++)\<close> up to the choice of \<open>nextCentroid\<close>.
  When a squared distance is \<open>Infinity\<close>, or when the distances sum to \<open>0\<close>, the
  probabilities are \<open>0\<close> or \<open>NaN\<close>; no comparison with a \<open>NaN\<close> holds and a cumulative
  probability \<open>0\<close> selects index \<open>0\<close> only, so \<open>nextCentroid\<close> is \<open>0\<close>.
\<close>

definition chooseNext :: "point list \<Rightarrow> point list \<Rightarrow> real \<Rightarrow> nat" where
  "chooseNext points centroids randomValue =
     (let distances = map (\<lambda>p. map_option (\<lambda>m. m * m) (nearestDistance p centroids)) points
      in if list_ex (\<lambda>d. d = None) distances then 0
         else (let ds = map the distances;
                   sum = sum_list ds
               in if sum = 0 then 0
                  else pickNext (map (\<lambda>d. d / sum) ds) 0 0 randomValue))"

fun seedLoop :: "nat \<Rightarrow> rng \<Rightarrow> nat \<Rightarrow> point list \<Rightarrow> point list \<Rightarrow> point list \<times> nat" where
  "seedLoop 0 rs n points centroids = (centroids, n)"
| "seedLoop (Suc m) rs n points centroids =
     (let rv = Math_random rs n;
          nextCentroid = chooseNext points centroids (fst rv)
      in seedLoop m rs (snd rv) points (centroids @ [points ! nextCentroid]))"

definition initializeCentroids :: "rng \<Rightarrow> nat \<Rightarrow> point list \<Rightarrow> int \<Rightarrow> point list \<times> nat" where
  "initializeCentroids rs n points k =
     (if length points = 0 \<or> k \<le> 0 then ([], n)
      else (let rv = Math_random rs n;
                firstCentroid = nat \<lfloor>fst rv * real (length points)\<rfloor>
            in seedLoop (nat (k - 1)) rs (snd rv) points [points ! firstCentroid]))"

subsection \<open>Refinement\<close>

text \<open>The loop \<open>for (let j = 0; j < centroids.length; j++)\<close> that finds \<open>closestCentroid\<close>.\<close>

fun closestLoop :: "point \<Rightarrow> point list \<Rightarrow> nat \<Rightarrow> real option \<Rightarrow> nat \<Rightarrow> nat" where
  "closestLoop p [] j minDistance closestCentroid = closestCentroid"
| "closestLoop p (c # cs) j minDistance closestCentroid =
     (let distance = haversineDistance (fst p) (snd p) (fst c) (snd c)
      in if lt_inf distance minDistance
         then closestLoop p cs (Suc j) (Some distance) j
         else closestLoop p cs (Suc j) minDistance closestCentroid)"

definition assignPoints :: "point list \<Rightarrow> point list \<Rightarrow> int list" where
  "assignPoints points centroids = map (\<lambda>p. int (closestLoop p centroids 0 None 0)) points"

text \<open>The sums \<open>newCentroids\<close> and the \<open>counts\<close> of the centroid update.\<close>

definition accumulate :: "point list \<Rightarrow> int list \<Rightarrow> nat \<Rightarrow> point list \<times> nat list" where
  "accumulate points assignments k =
     fold (\<lambda>i acc.
             let clusterId = nat (assignments ! i);
                 newCentroids = fst acc; counts = snd acc;
                 s = newCentroids ! clusterId
             in (newCentroids[clusterId := (fst s + fst (points ! i), snd s + snd (points ! i))],
                 counts[clusterId := counts ! clusterId + 1]))
          [0..<length points] (replicate k (0, 0), replicate k 0)"

definition updateCentroids :: "point list \<Rightarrow> int list \<Rightarrow> nat \<Rightarrow> point list \<Rightarrow> point list" where
  "updateCentroids points assignments k centroids =
     (let acc = accumulate points assignments k;
          newCentroids = fst acc; counts = snd acc
      in fold (\<lambda>i cs. if counts ! i > 0
                       then cs[i := (fst (newCentroids ! i) / real (counts ! i),
                                     snd (newCentroids ! i) / real (counts ! i))]
                       else cs)
              [0..<k] centroids)"

text \<open>
  The loop \<open>while (!converged && iterations < maxIterations)\<close>; the first argument is
  \<open>maxIterations - iterations\<close>.
\<close>

fun kMeansLoop ::
  "nat \<Rightarrow> point list \<Rightarrow> nat \<Rightarrow> point list \<Rightarrow> int list \<Rightarrow> int list \<Rightarrow> int list \<times> point list" where
  "kMeansLoop 0 points k centroids oldAssignments assignments = (assignments, centroids)"
| "kMeansLoop (Suc remaining) points k centroids oldAssignments assignments =
     (let assignments1 = assignPoints points centroids
      in if assignments1 = oldAssignments then (assignments1, centroids)
         else kMeansLoop remaining points k
                (updateCentroids points assignments1 k centroids) assignments1 assignments1)"

text \<open>The final loop of \<open>kMeansCluster\<close>: the sum of squared distances to the centroids.\<close>

definition sumSquaredDistances :: "point list \<Rightarrow> int list \<Rightarrow> point list \<Rightarrow> real" where
  "sumSquaredDistances points assignments centroids =
     sum_list (map (\<lambda>i. let clusterId = nat (assignments ! i);
                            distance = haversineDistance (fst (points ! i)) (snd (points ! i))
                                         (fst (centroids ! clusterId)) (snd (centroids ! clusterId))
                        in distance * distance)
                   [0..<length points])"

record kMeansResult =
  km_assignments :: "int list"
  km_centroids :: "point list"
  km_inertia :: real

definition kMeansCluster :: "rng \<Rightarrow> nat \<Rightarrow> position list \<Rightarrow> int \<Rightarrow> kMeansResult \<times> nat" where
  "kMeansCluster rs n positions k =
     (if length positions = 0 \<or> k \<le> 0
      then (\<lparr>km_assignments = [], km_centroids = [], km_inertia = 0\<rparr>, n)
      else (let points = map (\<lambda>pos. (fst pos, fst (snd pos))) positions;
                init = initializeCentroids rs n points k;
                r = kMeansLoop 100 points (nat k) (fst init)
                      (replicate (length points) (- 1)) (replicate (length points) (- 1))
            in (\<lparr>km_assignments = fst r, km_centroids = snd r,
                 km_inertia = sumSquaredDistances points (fst r) (snd r)\<rparr>, snd init)))"

text \<open>
  The states \<open>(assignments, centroids)\<close> at the end of the successive passes of the loop
  of \<open>kMeansCluster\<close> that reach the centroid update: the loop of \<open>kMeansLoop\<close> with the
  state written down after each update. \<open>inertiaTrace\<close> is the inertia of these states
  for a call of \<open>kMeansCluster\<close>, computed as the final loop of \<open>kMeansCluster\<close> does.
\<close>

fun kMeansStates ::
  "nat \<Rightarrow> point list \<Rightarrow> nat \<Rightarrow> point list \<Rightarrow> int list \<Rightarrow> (int list \<times> point list) list" where
  "kMeansStates 0 points k centroids oldAssignments = []"
| "kMeansStates (Suc remaining) points k centroids oldAssignments =
     (let assignments1 = assignPoints points centroids
      in if assignments1 = oldAssignments then []
         else (let centroids1 = updateCentroids points assignments1 k centroids
               in (assignments1, centroids1) #
                  kMeansStates remaining points k centroids1 assignments1))"



definition twoPoints :: "point list" where
  "twoPoints = [(0, 0), (0, 90)]"


subsection \<open>Scoring\<close>

text \<open>An array read \<open>xs[i]\<close>; \<open>None\<close> is \<open>undefined\<close>.\<close>

definition lookup :: "'a list \<Rightarrow> nat \<Rightarrow> 'a option" where
  "lookup xs i = (if i < length xs then Some (xs ! i) else None)"

text \<open>
  The scoring functions call \<open>haversineDistance\<close> and compute with its results, which
  can be \<open>NaN\<close> on the machine. They are written on \<open>jsnum\<close>, with the function \<open>hav\<close>
  that gives the results of these calls as their first argument.
\<close>

definition calculateAverageDistanceToSameCluster ::
  "distanceFn \<Rightarrow> nat \<Rightarrow> position list \<Rightarrow> int list \<Rightarrow> jsnum" where
  "calculateAverageDistanceToSameCluster hav pointIndex positions assignments =
     (let pointCluster = lookup assignments pointIndex;
          pointsInSameCluster =
            map (\<lambda>i. positions ! i)
              (filter (\<lambda>i. i \<noteq> pointIndex \<and> lookup assignments i = pointCluster)
                 [0..<length positions])
      in if length pointsInSameCluster = 0 then Number 0
         else js_div
                (fold (\<lambda>otherPoint totalDistance.
                         js_add totalDistance
                           (hav (fst (positions ! pointIndex)) (fst (snd (positions ! pointIndex)))
                                 (fst otherPoint) (fst (snd otherPoint))))
                   pointsInSameCluster (Number 0))
                (Number (real (length pointsInSameCluster))))"

definition calculateAverageDistanceToNearestCluster ::
  "distanceFn \<Rightarrow> nat \<Rightarrow> position list \<Rightarrow> int list \<Rightarrow> point list \<Rightarrow> jsnum" where
  "calculateAverageDistanceToNearestCluster hav pointIndex positions assignments centroids =
     (let pointCluster = lookup assignments pointIndex;
          nearestClusterDistance =
            fold (\<lambda>clusterId nearest.
                    if Some (int clusterId) = pointCluster then nearest
                    else (let pointsInCluster =
                                map (\<lambda>i. positions ! i)
                                  (filter (\<lambda>i. lookup assignments i = Some (int clusterId))
                                     [0..<length positions])
                          in if length pointsInCluster = 0 then nearest
                             else js_min nearest
                                    (js_div
                                       (fold (\<lambda>otherPoint totalDistance.
                                                js_add totalDistance
                                                  (hav (fst (positions ! pointIndex))
                                                        (fst (snd (positions ! pointIndex)))
                                                        (fst otherPoint) (fst (snd otherPoint))))
                                          pointsInCluster (Number 0))
                                       (Number (real (length pointsInCluster))))))
                 [0..<length centroids] PosInfinity
      in if nearestClusterDistance = PosInfinity then Number 0 else nearestClusterDistance)"

definition silhouetteValue ::
  "distanceFn \<Rightarrow> nat \<Rightarrow> position list \<Rightarrow> int list \<Rightarrow> point list \<Rightarrow> jsnum" where
  "silhouetteValue hav i positions assignments centroids =
     (let a = calculateAverageDistanceToSameCluster hav i positions assignments;
          b = calculateAverageDistanceToNearestCluster hav i positions assignments centroids
      in if a = Number 0 \<and> b = Number 0 then Number 0
         else js_div (js_sub b a) (js_max a b))"

definition calculateSilhouetteScore ::
  "distanceFn \<Rightarrow> position list \<Rightarrow> int list \<Rightarrow> point list \<Rightarrow> jsnum" where
  "calculateSilhouetteScore hav positions assignments centroids =
     (if length positions \<le> 1 \<or> length centroids \<le> 1 then Number 0
      else (let silhouetteValues =
                  map (\<lambda>i. silhouetteValue hav i positions assignments centroids)
                    [0..<length positions];
                sum = fold (\<lambda>b a. js_add a b) silhouetteValues (Number 0)
            in js_div sum (Number (real (length silhouetteValues)))))"

text \<open>
  A non-negative number, a number in \<open>[-1, 1]\<close>, and: every distance between two of the
  positions is a non-negative number.
\<close>

definition nonnegNumber :: "jsnum \<Rightarrow> bool" where
  "nonnegNumber x = (case x of Number a \<Rightarrow> 0 \<le> a | _ \<Rightarrow> False)"

definition unitNumber :: "jsnum \<Rightarrow> bool" where
  "unitNumber x = (case x of Number a \<Rightarrow> - 1 \<le> a \<and> a \<le> 1 | _ \<Rightarrow> False)"

definition distancesNonneg :: "distanceFn \<Rightarrow> position list \<Rightarrow> bool" where
  "distancesNonneg hav positions =
     list_all (\<lambda>p. list_all (\<lambda>q. nonnegNumber (hav (fst p) (fst (snd p)) (fst q) (fst (snd q))))
                         positions) positions"

subsection \<open>Choice of the number of clusters\<close>

record kMeansResults =
  res_k :: int
  res_assignments :: "int list"
  res_centroids :: "point list"
  res_clusterSizes :: "nat list"
  res_silhouetteScores :: "jsnum list option"
  res_inertiaValues :: "real list option"
  res_kRange :: "int list option"

record kSweep =
  optimalK :: int
  bestScore :: jsnum
  finalAssignments :: "int list"
  finalCentroids :: "point list"
  finalClusterSizes :: "nat list"
  silhouetteScores :: "jsnum list"
  inertiaValues :: "real list"
  calls :: nat

text \<open>
  The body of \<open>for (const k of kRange)\<close>, with the centroid clustering evaluated
  exactly. \<open>bestScore\<close> starts at \<open>-Infinity\<close>.
\<close>

definition sweepStep :: "rng \<Rightarrow> position list \<Rightarrow> int \<Rightarrow> kSweep \<Rightarrow> kSweep" where
  "sweepStep rs positions k st =
     (let run = kMeansCluster rs (calls st) positions k;
          silhouetteScore =
            calculateSilhouetteScore exactDistance positions
              (km_assignments (fst run)) (km_centroids (fst run));
          st1 = st\<lparr>silhouetteScores := silhouetteScores st @ [silhouetteScore],
                   inertiaValues := inertiaValues st @ [km_inertia (fst run)],
                   calls := snd run\<rparr>
      in if js_less (bestScore st1) silhouetteScore
         then st1\<lparr>bestScore := silhouetteScore,
                  optimalK := k,
                  finalAssignments := km_assignments (fst run),
                  finalCentroids := km_centroids (fst run),
                  finalClusterSizes :=
                    fold (\<lambda>assignment sizes.
                            sizes[nat assignment := sizes ! nat assignment + 1])
                         (km_assignments (fst run)) (replicate (nat k) 0)\<rparr>
         else st1)"

text \<open>
  The early return for an empty list has no \<open>silhouetteScores\<close>, \<open>inertiaValues\<close> and
  \<open>kRange\<close> fields. \<open>Array.from({length: maxK - 1}, ...)\<close> is empty when \<open>maxK - 1\<close>
  is not positive.
\<close>

definition performKMeansClustering :: "rng \<Rightarrow> nat \<Rightarrow> position list \<Rightarrow> kMeansResults \<times> nat" where
  "performKMeansClustering rs n positions =
     (if length positions = 0
      then (\<lparr>res_k = 0, res_assignments = [], res_centroids = [], res_clusterSizes = [],
             res_silhouetteScores = None, res_inertiaValues = None, res_kRange = None\<rparr>, n)
      else (let maxK = min 20 (int (length positions) div 10);
                kRange = map (\<lambda>i. int i + 2) [0..<nat (maxK - 1)];
                st = fold (sweepStep rs positions) kRange
                       \<lparr>optimalK = 2, bestScore = NegInfinity, finalAssignments = [],
                        finalCentroids = [], finalClusterSizes = [],
                        silhouetteScores = [], inertiaValues = [], calls = n\<rparr>
            in (\<lparr>res_k = optimalK st, res_assignments = finalAssignments st,
                 res_centroids = finalCentroids st, res_clusterSizes = finalClusterSizes st,
                 res_silhouetteScores = Some (silhouetteScores st),
                 res_inertiaValues = Some (inertiaValues st),
                 res_kRange = Some kRange\<rparr>, calls st)))"

section \<open>Convex hull builder\<close>

definition isCounterClockwise :: "point \<Rightarrow> point \<Rightarrow> point \<Rightarrow> bool" where
  "isCounterClockwise p1 p2 p3 =
     ((snd p2 - snd p1) * (fst p3 - fst p2) - (fst p2 - fst p1) * (snd p3 - snd p2) > 0)"

text \<open>The loop that finds \<open>lowestPoint\<close>, started at \<open>points[0]\<close>.\<close>

definition findLowest :: "point list \<Rightarrow> point" where
  "findLowest points =
     fold (\<lambda>p lowestPoint.
             if fst p < fst lowestPoint \<or> (fst p = fst lowestPoint \<and> snd p < snd lowestPoint)
             then p else lowestPoint)
          (tl points) (points ! 0)"

text \<open>The comparator handed to \<open>sort\<close>.\<close>

definition hullCompare :: "point \<Rightarrow> point \<Rightarrow> point \<Rightarrow> real" where
  "hullCompare lowestPoint a b =
     (let angleA = atan2 (fst a - fst lowestPoint) (snd a - snd lowestPoint);
          angleB = atan2 (fst b - fst lowestPoint) (snd b - snd lowestPoint)
      in if angleA \<noteq> angleB then angleB - angleA
         else (let distA = (fst a - fst lowestPoint)\<^sup>2 + (snd a - snd lowestPoint)\<^sup>2;
                   distB = (fst b - fst lowestPoint)\<^sup>2 + (snd b - snd lowestPoint)\<^sup>2
               in distA - distB))"

text \<open>
  \<open>Array.prototype.sort\<close> with a comparator is a stable sort: \<open>a\<close> is placed before \<open>b\<close>
  when the comparator is negative, and elements that compare equal keep their order.
  Insertion from the right computes that order.
\<close>

fun insertBy :: "('a \<Rightarrow> 'a \<Rightarrow> real) \<Rightarrow> 'a \<Rightarrow> 'a list \<Rightarrow> 'a list" where
  "insertBy cmp x [] = [x]"
| "insertBy cmp x (y # ys) = (if cmp x y \<le> 0 then x # y # ys else y # insertBy cmp x ys)"

definition sortBy :: "('a \<Rightarrow> 'a \<Rightarrow> real) \<Rightarrow> 'a list \<Rightarrow> 'a list" where
  "sortBy cmp xs = foldr (insertBy cmp) xs []"

text \<open>
  The inner \<open>while\<close> loop of the scan: pop while the last two points and \<open>p\<close> do not
  turn left. The stack \<open>hull\<close> of the source is \<open>hl\<close> here.
\<close>

function popWhile :: "point list \<Rightarrow> point \<Rightarrow> point list" where
  "popWhile hl p =
     (if length hl \<ge> 2 \<and>
         \<not> isCounterClockwise (hl ! (length hl - 2)) (hl ! (length hl - 1)) p
      then popWhile (butlast hl) p
      else hl)"
  by pat_completeness auto

termination
  by (relation "measure (\<lambda>(hl, p). length hl)") auto

definition calculateConvexHull :: "point list \<Rightarrow> point list" where
  "calculateConvexHull points =
     (if length points < 3 then points
      else (let lowestPoint = findLowest points;
                sortedPoints = sortBy (hullCompare lowestPoint) points
            in fold (\<lambda>p hl. popWhile hl p @ [p]) (drop 2 sortedPoints)
                 [sortedPoints ! 0, sortedPoints ! 1]))"

section \<open>Properties of the geodesy utilities\<close>

text \<open>
  The exact value of \<open>a\<close> lies in \<open>[0, 1]\<close>, and the exact distance is non-negative,
  zero from a position to itself, and symmetric.
\<close>

lemma cos_prod:
  fixes s x :: real
  shows "cos (s - x) * cos (s + x) = (cos s)\<^sup>2 - (sin x)\<^sup>2"
proof -
  have c: "(cos x)\<^sup>2 = 1 - (sin x)\<^sup>2" and d: "(sin s)\<^sup>2 = 1 - (cos s)\<^sup>2"
    by (rule cos_squared_eq, rule sin_squared_eq)
  have "cos (s - x) * cos (s + x) = (cos s)\<^sup>2 * (cos x)\<^sup>2 - (sin s)\<^sup>2 * (sin x)\<^sup>2"
    unfolding cos_diff cos_add by (simp add: algebra_simps power2_eq_square)
  also have "(cos s)\<^sup>2 * (cos x)\<^sup>2 - (sin s)\<^sup>2 * (sin x)\<^sup>2 = (cos s)\<^sup>2 - (sin x)\<^sup>2"
    unfolding c d by (simp add: algebra_simps)
  finally show ?thesis .
qed

lemma atan2_nonneg: "0 \<le> y \<Longrightarrow> 0 \<le> x \<Longrightarrow> 0 \<le> atan2 y x"
  by (auto simp: atan2_def)

lemma hav_a_decomp:
  fixes lat1 lat2 lon1 lon2 :: real
  defines "x \<equiv> (lat2 - lat1) * pi / 180 / 2"
    and "y \<equiv> (lon2 - lon1) * pi / 180 / 2"
    and "s \<equiv> (lat1 + lat2) * pi / 180 / 2"
  shows "sin x * sin x + cos (lat1 * pi / 180) * cos (lat2 * pi / 180) * sin y * sin y
         = (sin x)\<^sup>2 * (cos y)\<^sup>2 + (cos s)\<^sup>2 * (sin y)\<^sup>2"
proof -
  have e1: "lat1 * pi / 180 = s - x" by (simp add: s_def x_def field_simps)
  have e2: "lat2 * pi / 180 = s + x" by (simp add: s_def x_def field_simps)
  have "sin x * sin x + cos (lat1 * pi / 180) * cos (lat2 * pi / 180) * sin y * sin y
        = (sin x)\<^sup>2 + ((cos s)\<^sup>2 - (sin x)\<^sup>2) * (sin y)\<^sup>2"
    unfolding e1 e2 by (simp add: cos_prod power2_eq_square algebra_simps)
  also have "\<dots> = (sin x)\<^sup>2 * (1 - (sin y)\<^sup>2) + (cos s)\<^sup>2 * (sin y)\<^sup>2"
    by (simp add: algebra_simps)
  also have "\<dots> = (sin x)\<^sup>2 * (cos y)\<^sup>2 + (cos s)\<^sup>2 * (sin y)\<^sup>2"
    by (simp add: cos_squared_eq)
  finally show ?thesis .
qed



lemma haversineDistance_a:
  "haversineDistance lat1 lon1 lat2 lon2 =
     6371 * (2 * atan2 (sqrt (hav_a lat1 lon1 lat2 lon2)) (sqrt (1 - hav_a lat1 lon1 lat2 lon2)))"
  by (simp add: haversineDistance_def hav_a_def Let_def)

lemma hav_a_ge0: "0 \<le> hav_a lat1 lon1 lat2 lon2"
  unfolding hav_a_def hav_a_decomp by simp

lemma hav_a_le1: "hav_a lat1 lon1 lat2 lon2 \<le> 1"
proof -
  define x where "x = (lat2 - lat1) * pi / 180 / 2"
  define y where "y = (lon2 - lon1) * pi / 180 / 2"
  define s where "s = (lat1 + lat2) * pi / 180 / 2"
  have a: "hav_a lat1 lon1 lat2 lon2 = (sin x)\<^sup>2 * (cos y)\<^sup>2 + (cos s)\<^sup>2 * (sin y)\<^sup>2"
    unfolding hav_a_def hav_a_decomp x_def y_def s_def ..
  have "(sin x)\<^sup>2 * (cos y)\<^sup>2 \<le> 1 * (cos y)\<^sup>2"
    by (rule mult_right_mono) (simp_all add: abs_square_le_1)
  moreover have "(cos s)\<^sup>2 * (sin y)\<^sup>2 \<le> 1 * (sin y)\<^sup>2"
    by (rule mult_right_mono) (simp_all add: abs_square_le_1)
  ultimately have "hav_a lat1 lon1 lat2 lon2 \<le> 1 * (cos y)\<^sup>2 + 1 * (sin y)\<^sup>2"
    unfolding a by (rule add_mono)
  then show ?thesis by simp
qed


lemma haversineDistance_self: "haversineDistance lat lon lat lon = 0"
  by (simp add: haversineDistance_a hav_a_def atan2_def)

lemma hav_a_sym: "hav_a lat1 lon1 lat2 lon2 = hav_a lat2 lon2 lat1 lon1"
proof -
  have n: "\<And>u v :: real. sin ((u - v) * pi / 180 / 2) * sin ((u - v) * pi / 180 / 2)
             = sin ((v - u) * pi / 180 / 2) * sin ((v - u) * pi / 180 / 2)"
  proof -
    fix u v :: real
    have "(u - v) * pi / 180 / 2 = - ((v - u) * pi / 180 / 2)" by (simp add: field_simps)
    then show "sin ((u - v) * pi / 180 / 2) * sin ((u - v) * pi / 180 / 2)
             = sin ((v - u) * pi / 180 / 2) * sin ((v - u) * pi / 180 / 2)"
      by (simp only: sin_minus minus_mult_minus)
  qed
  show ?thesis
    unfolding hav_a_def mult.assoc n [of lat2 lat1] n [of lon2 lon1] by simp
qed

lemma haversineDistance_sym:
  "haversineDistance lat1 lon1 lat2 lon2 = haversineDistance lat2 lon2 lat1 lon1"
  unfolding haversineDistance_a hav_a_sym [of lat1 lon1 lat2 lon2] ..


lemma atan2_sin_cos:
  assumes "0 \<le> t" "t \<le> pi"
  shows "atan2 \<bar>sin t\<bar> \<bar>cos t\<bar> = (if t \<le> pi / 2 then t else pi - t)"
proof -
  consider "t < pi / 2" | "t = pi / 2" | "pi / 2 < t" by linarith
  then show ?thesis
  proof cases
    case 1
    then have c: "0 < cos t" using assms by (simp add: cos_gt_zero_pi)
    have s: "0 \<le> sin t" using assms by (simp add: sin_ge_zero)
    have "arctan (sin t / cos t) = t"
      using arctan_tan [of t] 1 assms by (simp add: tan_def)
    then show ?thesis using c s 1 by (simp add: atan2_def)
  next
    case 2
    show ?thesis unfolding 2 by (simp add: atan2_def)
  next
    case 3
    define r where "r = pi - t"
    have r: "0 \<le> r" "r < pi / 2" using 3 assms by (simp_all add: r_def)
    have t: "t = pi - r" by (simp add: r_def)
    have c: "0 < cos r" using r by (simp add: cos_gt_zero_pi)
    have s: "0 \<le> sin r" using r by (simp add: sin_ge_zero)
    have "arctan (sin r / cos r) = r"
      using arctan_tan [of r] r by (simp add: tan_def)
    then have e: "atan2 \<bar>sin r\<bar> \<bar>cos r\<bar> = r" using c s by (simp add: atan2_def)
    have st: "\<bar>sin t\<bar> = \<bar>sin r\<bar>" "\<bar>cos t\<bar> = \<bar>cos r\<bar>" by (simp_all add: t)
    have "atan2 \<bar>sin t\<bar> \<bar>cos t\<bar> = pi - t" unfolding st e by (simp add: r_def)
    then show ?thesis using 3 by simp
  qed
qed

lemma haversineDistance_equator:
  assumes "\<bar>y - x\<bar> \<le> 360"
  shows "haversineDistance 0 x 0 y =
           6371 * ((if \<bar>y - x\<bar> \<le> 180 then \<bar>y - x\<bar> else 360 - \<bar>y - x\<bar>) * pi / 180)"
proof -
  define t where "t = \<bar>y - x\<bar> * pi / 360"
  have t: "0 \<le> t" "t \<le> pi" using assms by (simp_all add: t_def field_simps)
  have "sin ((y - x) * pi / 180 / 2) * sin ((y - x) * pi / 180 / 2) = sin t * sin t"
  proof (cases "0 \<le> y - x")
    case True then show ?thesis by (simp add: t_def)
  next
    case False
    then have ab: "\<bar>y - x\<bar> = x - y" by linarith
    have "(y - x) * pi / 180 / 2 = - t" unfolding t_def ab by (simp add: field_simps)
    then show ?thesis by (simp only: sin_minus minus_mult_minus)
  qed
  then have a: "hav_a 0 x 0 y = (sin t)\<^sup>2" by (simp add: hav_a_def power2_eq_square)
  have b: "1 - (sin t)\<^sup>2 = (cos t)\<^sup>2" by (simp add: cos_squared_eq)
  have "haversineDistance 0 x 0 y = 6371 * (2 * atan2 \<bar>sin t\<bar> \<bar>cos t\<bar>)"
    unfolding haversineDistance_a a b by simp
  also have "\<dots> = 6371 * (2 * (if t \<le> pi / 2 then t else pi - t))"
    using atan2_sin_cos [OF t] by simp
  also have "\<dots> = 6371 * ((if \<bar>y - x\<bar> \<le> 180 then \<bar>y - x\<bar> else 360 - \<bar>y - x\<bar>) * pi / 180)"
    by (simp add: t_def field_simps)
  finally show ?thesis .
qed

lemma kmPerDegree_pos: "0 < kmPerDegree"
  by (simp add: kmPerDegree_def)

lemma hav_deg:
  "\<bar>y - x\<bar> \<le> 360 \<Longrightarrow>
   haversineDistance 0 x 0 y = kmPerDegree * (if \<bar>y - x\<bar> \<le> 180 then \<bar>y - x\<bar> else 360 - \<bar>y - x\<bar>)"
  by (simp add: haversineDistance_equator kmPerDegree_def)

lemma km_less [simp]: "kmPerDegree * a < kmPerDegree * b \<longleftrightarrow> a < b"
  using kmPerDegree_pos by simp

lemma km_less0 [simp]: "kmPerDegree * a < 0 \<longleftrightarrow> a < 0"  "0 < kmPerDegree * a \<longleftrightarrow> 0 < a"
  using kmPerDegree_pos by (simp_all add: mult_less_0_iff zero_less_mult_iff)

text \<open>
  The results above are about the exact value. On the machine the computed \<open>a\<close> decides:
  outside \<open>[0, 1]\<close> the function returns \<open>NaN\<close>, inside it returns a non-negative number,
  and with the exact \<open>a\<close> the exact distance.
\<close>

lemma haversineFromA_above_one: "1 < a \<Longrightarrow> haversineFromA a = NaN"
  by (simp add: haversineFromA_def Math_sqrt_def)

lemma haversineFromA_below_zero: "a < 0 \<Longrightarrow> haversineFromA a = NaN"
  by (simp add: haversineFromA_def Math_sqrt_def)

lemma haversineFromA_number:
  "0 \<le> a \<Longrightarrow> a \<le> 1 \<Longrightarrow>
   haversineFromA a = Number (6371 * (2 * atan2 (sqrt a) (sqrt (1 - a))))"
  by (simp add: haversineFromA_def Math_sqrt_def)

lemma haversineFromA_nonneg: "haversineFromA a = Number d \<Longrightarrow> 0 \<le> d"
  by (auto simp: haversineFromA_def Math_sqrt_def atan2_nonneg split: if_splits)

lemma haversineFromA_zero: "haversineFromA 0 = Number 0"
  by (simp add: haversineFromA_def Math_sqrt_def atan2_def)

lemma haversineDistance_fp_exact:
  "haversineDistance_fp hav_a lat1 lon1 lat2 lon2 = exactDistance lat1 lon1 lat2 lon2"
  by (simp add: haversineDistance_fp_def exactDistance_def haversineFromA_number hav_a_ge0 hav_a_le1
        haversineDistance_a)

lemma hav_a_antipodal: "hav_a 8 (- 180) (- 8) 0 = 1" "hav_a (- 8) 0 8 (- 180) = 1"
proof -
  have n: "sin (- x) * sin (- x) = sin x * sin x" for x :: real by simp
  have s: "sin (8 * pi / 180) * sin (8 * pi / 180) + cos (8 * pi / 180) * cos (8 * pi / 180) = 1"
    using sin_cos_squared_add [of "8 * pi / 180 :: real"] by (simp add: power2_eq_square)
  have e1: "(- 8 - 8) * pi / 180 / 2 = - (8 * pi / 180)" "(0 - (- 180)) * pi / 180 / 2 = pi / 2"
    "- 8 * pi / 180 = - (8 * pi / 180)"
    by simp_all
  have e2: "(8 - (- 8)) * pi / 180 / 2 = 8 * pi / 180" "(- 180 - 0) * pi / 180 / 2 = - (pi / 2)"
    by simp_all
  show "hav_a 8 (- 180) (- 8) 0 = 1"
    unfolding hav_a_def e1 mult.assoc n using s by simp
  show "hav_a (- 8) 0 8 (- 180) = 1"
    unfolding hav_a_def e1 e2 mult.assoc n using s by (simp add: mult.commute)
qed

lemma haversineFromA_one: "haversineFromA 1 = Number (6371 * pi)"
  by (simp add: haversineFromA_number atan2_def)

text \<open>
  Claim C8. The claim says that for all valid positions the distance from a position to
  itself is \<open>0\<close> and the distance is symmetric. The first part holds. The second fails on
  the machine for positions that are nearly antipodal, because the code does not keep the
  computed \<open>a\<close> below \<open>1\<close>. For \<open>(8, -180)\<close> and \<open>(-8, 0)\<close> the exact value of \<open>a\<close> is
  \<open>1\<close>, in either order of the arguments, and the exact distance is \<open>6371 pi\<close>; in doubles
  the sum that gives \<open>a\<close> rounds to \<open>1 + 1 / 2 ^ 52\<close>, \<open>Math.sqrt(1 - a)\<close> is \<open>NaN\<close>, and
  both calls return \<open>NaN\<close>, which is not equal to itself.
\<close>

theorem haversineDistance_nan_near_antipodes:
  "hav_a 8 (- 180) (- 8) 0 = 1 \<and> hav_a (- 8) 0 8 (- 180) = 1 \<and>
   haversineFromA 1 = Number (6371 * pi) \<and>
   haversineFromA (1 + 1 / 2 ^ 52) = NaN"
  by (simp add: hav_a_antipodal haversineFromA_above_one haversineFromA_one)

section \<open>Properties of the convex hull builder\<close>

text \<open>
  Claim C10. For every input list of fewer than three points, \<open>calculateConvexHull\<close>
  returns the input list itself, unchanged: a list of 0, 1 or 2 points.
\<close>

theorem calculateConvexHull_short:
  "length points < 3 \<Longrightarrow> calculateConvexHull points = points"
  by (simp add: calculateConvexHull_def)

theorem calculateConvexHull_short_witness:
  "length [(10, 20), (30, 40 :: real)] < 3 \<and>
   calculateConvexHull [(10, 20), (30, 40)] = [(10, 20), (30, 40)]"
  using calculateConvexHull_short [of "[(10, 20), (30, 40)]"] by simp

lemma atan2_values:
  "atan2 1 0 = pi / 2" "atan2 1 1 = pi / 4" "atan2 0 0 = 0" "atan2 0 1 = 0"
  by (simp_all add: atan2_def arctan_one)

lemma findLowest_square: "findLowest [(0, 0), (0, 1), (1, 1), (1, 0)] = (0, 0)"
  by (simp add: findLowest_def)

lemma sortBy_square:
  "sortBy (hullCompare (0, 0)) [(0, 0), (0, 1), (1, 1), (1, 0)] = [(1, 0), (1, 1), (0, 0), (0, 1)]"
  using pi_gt_zero by (simp add: sortBy_def hullCompare_def atan2_values Let_def not_le)

text \<open>
  Claim C3. The claim says that for at least three input points the output of
  \<open>calculateConvexHull\<close> is a convex polygon of input points that contains every input
  point. The code does not do that. The comparator sorts by decreasing polar angle, which
  puts the pivot \<open>lowestPoint\<close> (angle \<open>0\<close>) near the end of the sorted list instead of at
  its head, and the scan then keeps left turns on a list that is in clockwise order. On
  the unit square \<open>(0,0), (0,1), (1,1), (1,0)\<close> the sorted list is
  \<open>(1,0), (1,1), (0,0), (0,1)\<close>, the scan pops the corner \<open>(1,1)\<close>, and the result is the
  triangle \<open>(1,0), (0,0), (0,1)\<close>. The corner \<open>(1,1)\<close> is an input point that is no
  convex combination of the three output points: it lies outside the returned polygon.
\<close>

theorem calculateConvexHull_square:
  "calculateConvexHull [(0, 0), (0, 1), (1, 1), (1, 0)] = [(1, 0), (0, 0), (0, 1)] \<and>
   \<not> (\<exists>a b c :: real. 0 \<le> a \<and> 0 \<le> b \<and> 0 \<le> c \<and> a + b + c = 1 \<and>
          (1, 1) = (a * 1 + b * 0 + c * 0, a * 0 + b * 0 + c * 1))"
proof
  show "calculateConvexHull [(0, 0), (0, 1), (1, 1), (1, 0)] = [(1, 0), (0, 0), (0, 1)]"
    by (simp add: calculateConvexHull_def findLowest_square sortBy_square isCounterClockwise_def)
  show "\<not> (\<exists>a b c :: real. 0 \<le> a \<and> 0 \<le> b \<and> 0 \<le> c \<and> a + b + c = 1 \<and>
          (1, 1) = (a * 1 + b * 0 + c * 0, a * 0 + b * 0 + c * 1))"
    by auto
qed

section \<open>Properties of the coverage grid analyzer\<close>

lemma stepsFrom_lat:
  "stepsFrom (- 90) 90 15 = Some [- 90, - 75, - 60, - 45, - 30, - 15, 0, 15, 30, 45, 60, 75]"
  by (simp add: stepsFrom.simps)

lemma stepsFrom_lng:
  "stepsFrom (- 180) 180 30 =
     Some [- 180, - 150, - 120, - 90, - 60, - 30, 0, 30, 60, 90, 120, 150]"
  by (simp add: stepsFrom.simps)

text \<open>The grid of \<open>generateEarthGrid(15, 30)\<close> is built, has 12 rows of 12 cells, all empty.\<close>

lemma generateEarthGrid_15_30:
  "\<exists>g. generateEarthGrid 15 30 = Some g \<and> length g = 12 \<and>
       (\<forall>row \<in> set g. length row = 12 \<and> (\<forall>c \<in> set row. cell_count c = 0 \<and> \<not> cell_covered c))"
  by (simp add: generateEarthGrid_def stepsFrom_lat stepsFrom_lng)

lemma gridIndices_bound: "ij \<in> set gridIndices \<Longrightarrow> fst ij < 12 \<and> snd ij < 12"
  by (auto simp: gridIndices_def)

lemma gridIndices_length: "length gridIndices = 144"
  by (simp add: gridIndices_def length_concat comp_def sum_list_triv)

lemma distribution_fold:
  "distribution (fold (coverageCell grid) ijs st) =
     distribution st @
       map (\<lambda>ij. \<lparr>cell_covered = cell_covered (grid ! fst ij ! snd ij),
                   cell_count = cell_count (grid ! fst ij ! snd ij),
                   cell_lat = cellCenterLat (fst ij), cell_lng = cellCenterLng (snd ij)\<rparr>) ijs"
proof (induction ijs arbitrary: st)
  case Nil
  then show ?case by simp
next
  case (Cons ij ijs)
  have "distribution (coverageCell grid ij st) = distribution st @
      [\<lparr>cell_covered = cell_covered (grid ! fst ij ! snd ij),
        cell_count = cell_count (grid ! fst ij ! snd ij),
        cell_lat = cellCenterLat (fst ij), cell_lng = cellCenterLng (snd ij)\<rparr>]"
    by (simp add: coverageCell_def Let_def)
  then show ?case using Cons.IH [of "coverageCell grid ij st"] by simp
qed

text \<open>\<open>calculateCoverageMetrics\<close> returns, and its \<open>gridDistribution\<close> lists the marked grid.\<close>

lemma gridDistribution_cells:
  assumes "generateEarthGrid 15 30 = Some grid0"
  shows "\<exists>r. calculateCoverageMetrics positions = Some r \<and>
           gridDistribution r =
             map (\<lambda>ij. let cell = fold (\<lambda>pos g. markPosition g pos) positions grid0 ! fst ij ! snd ij
                       in \<lparr>cell_covered = cell_covered cell, cell_count = cell_count cell,
                           cell_lat = cellCenterLat (fst ij), cell_lng = cellCenterLng (snd ij)\<rparr>)
                 gridIndices"
  by (simp add: calculateCoverageMetrics_def assms Let_def distribution_fold)

lemma markPosition_north_pole: "markPosition grid (90, 0, 10) = grid"
  by (simp add: markPosition_def)

lemma markPosition_antimeridian: "markPosition grid (0, 180, 10) = grid"
  by (simp add: markPosition_def)

lemma unmarked_grid_empty:
  assumes "\<And>grid. fold (\<lambda>pos g. markPosition g pos) positions grid = grid"
  shows "case calculateCoverageMetrics positions of
           None \<Rightarrow> False
         | Some r \<Rightarrow> length (gridDistribution r) = 144 \<and>
                    list_all (\<lambda>c. cell_count c = 0 \<and> \<not> cell_covered c) (gridDistribution r)"
proof -
  obtain g where g: "generateEarthGrid 15 30 = Some g" "length g = 12"
    "\<forall>row \<in> set g. length row = 12 \<and> (\<forall>c \<in> set row. cell_count c = 0 \<and> \<not> cell_covered c)"
    using generateEarthGrid_15_30 by blast
  obtain r where r: "calculateCoverageMetrics positions = Some r"
    "gridDistribution r =
       map (\<lambda>ij. let cell = fold (\<lambda>pos g. markPosition g pos) positions g ! fst ij ! snd ij
                 in \<lparr>cell_covered = cell_covered cell, cell_count = cell_count cell,
                     cell_lat = cellCenterLat (fst ij), cell_lng = cellCenterLng (snd ij)\<rparr>)
           gridIndices"
    using gridDistribution_cells [OF g(1), of positions] by blast
  have cell: "cell_count (g ! i ! j) = 0 \<and> \<not> cell_covered (g ! i ! j)" if "i < 12" "j < 12" for i j
  proof -
    have "g ! i \<in> set g" using that g(2) by simp
    then have "length (g ! i) = 12" "\<forall>c \<in> set (g ! i). cell_count c = 0 \<and> \<not> cell_covered c"
      using g(3) by auto
    then show ?thesis using that by simp
  qed
  have "list_all (\<lambda>c. cell_count c = 0 \<and> \<not> cell_covered c) (gridDistribution r)"
    unfolding r(2) using cell gridIndices_bound
    by (auto simp: list_all_iff assms Let_def)
  moreover have "length (gridDistribution r) = 144"
    unfolding r(2) by (simp add: gridIndices_length)
  ultimately show ?thesis using r(1) by simp
qed

text \<open>
  In exact arithmetic, a position away from the upper boundaries is counted in one cell,
  the cell whose latitude and longitude intervals hold it.
\<close>

lemma markPosition_interior:
  assumes "- 90 \<le> la" "la < 90" "- 180 \<le> lo" "lo < 180"
  shows "\<exists>i j. i < 12 \<and> j < 12 \<and>
           - 90 + real i * 15 \<le> la \<and> la < - 90 + real (i + 1) * 15 \<and>
           - 180 + real j * 30 \<le> lo \<and> lo < - 180 + real (j + 1) * 30 \<and>
           markPosition grid (la, lo, alt) =
             grid[i := (grid ! i)[j := (grid ! i ! j)\<lparr>cell_count := cell_count (grid ! i ! j) + 1,
                                                      cell_covered := True\<rparr>]]"
proof -
  define li where "li = \<lfloor>(90 + la) / 15\<rfloor>"
  define lj where "lj = \<lfloor>(180 + lo) / 30\<rfloor>"
  have i0: "0 \<le> li" using assms(1) by (simp add: li_def)
  have i1: "li < 12" using assms(2) by (simp add: li_def floor_less_iff)
  have j0: "0 \<le> lj" using assms(3) by (simp add: lj_def)
  have j1: "lj < 12" using assms(4) by (simp add: lj_def floor_less_iff)
  have ib: "of_int li \<le> (90 + la) / 15" "(90 + la) / 15 < of_int li + 1"
    unfolding li_def by linarith+
  have jb: "of_int lj \<le> (180 + lo) / 30" "(180 + lo) / 30 < of_int lj + 1"
    unfolding lj_def by linarith+
  have ri: "real (nat li) = of_int li" using i0 by simp
  have rj: "real (nat lj) = of_int lj" using j0 by simp
  have "nat li < 12" "nat lj < 12" using i0 i1 j0 j1 by simp_all
  moreover have "- 90 + real (nat li) * 15 \<le> la" "la < - 90 + real (nat li + 1) * 15"
    using ib unfolding ri by (simp_all add: field_simps)
  moreover have "- 180 + real (nat lj) * 30 \<le> lo" "lo < - 180 + real (nat lj + 1) * 30"
    using jb unfolding rj by (simp_all add: field_simps)
  moreover have "markPosition grid (la, lo, alt) =
             grid[nat li := (grid ! nat li)[nat lj := (grid ! nat li ! nat lj)\<lparr>cell_count := cell_count (grid ! nat li ! nat lj) + 1,
                                                      cell_covered := True\<rparr>]]"
    using i0 i1 j0 j1 assms by (simp add: markPosition_def Let_def li_def [symmetric] lj_def [symmetric])
  ultimately show ?thesis by blast
qed

text \<open>
  Claim C4. The claim says that every position with latitude in \<open>[-90, 90]\<close> and
  longitude in \<open>[-180, 180]\<close>, the boundary values \<open>lat = 90\<close> and \<open>lng = 180\<close> included,
  is counted in exactly one cell of the 12 by 12 grid. The code computes
  \<open>latIndex = floor((90 + lat) / 15)\<close>, which is \<open>12\<close> at \<open>lat = 90\<close>, and
  \<open>lngIndex = floor((180 + lng) / 30)\<close>, which is \<open>12\<close> at \<open>lng = 180\<close>; the guard
  \<open>latIndex < 12 && lngIndex < 12\<close> then skips the position. For the single position
  \<open>(90, 0, 10)\<close>, and likewise for \<open>(0, 180, 10)\<close>, \<open>calculateCoverageMetrics\<close> returns a
  grid distribution of 144 cells in which every count is \<open>0\<close> and no cell is covered: the
  position is in no cell.
\<close>

theorem calculateCoverageMetrics_boundary_dropped:
  "(case calculateCoverageMetrics [(90, 0, 10)] of
      None \<Rightarrow> False
    | Some r \<Rightarrow> length (gridDistribution r) = 144 \<and>
               list_all (\<lambda>c. cell_count c = 0 \<and> \<not> cell_covered c) (gridDistribution r)) \<and>
   (case calculateCoverageMetrics [(0, 180, 10)] of
      None \<Rightarrow> False
    | Some r \<Rightarrow> length (gridDistribution r) = 144 \<and>
               list_all (\<lambda>c. cell_count c = 0 \<and> \<not> cell_covered c) (gridDistribution r))"
proof
  show "case calculateCoverageMetrics [(90, 0, 10)] of
      None \<Rightarrow> False
    | Some r \<Rightarrow> length (gridDistribution r) = 144 \<and>
               list_all (\<lambda>c. cell_count c = 0 \<and> \<not> cell_covered c) (gridDistribution r)"
    by (rule unmarked_grid_empty) (simp add: markPosition_north_pole)
  show "case calculateCoverageMetrics [(0, 180, 10)] of
      None \<Rightarrow> False
    | Some r \<Rightarrow> length (gridDistribution r) = 144 \<and>
               list_all (\<lambda>c. cell_count c = 0 \<and> \<not> cell_covered c) (gridDistribution r)"
    by (rule unmarked_grid_empty) (simp add: markPosition_antimeridian)
qed

section \<open>Properties of the density and neighbor analyzer\<close>

lemma validIds_update:
  "validIds c asg \<Longrightarrow> a = - 1 \<or> (0 \<le> a \<and> a < c) \<Longrightarrow> validIds c (asg[i := a])"
  by (auto simp: validIds_def list_all_iff dest!: set_update_subset_insert [THEN subsetD])

lemma validIds_mono: "validIds c asg \<Longrightarrow> c \<le> c' \<Longrightarrow> validIds c' asg"
  by (auto simp: validIds_def list_all_iff)

lemma expandCluster_valid:
  "validIds c asg \<Longrightarrow> 0 \<le> cid \<Longrightarrow> cid < c \<Longrightarrow>
   validIds c (snd (expandCluster ps cid j ss v asg)) \<and>
   length (snd (expandCluster ps cid j ss v asg)) = length asg"
proof (induction ps cid j ss v asg rule: expandCluster.induct)
  case (1 positions clusterId j seedSet visited clusterAssignments)
  show ?case
  proof (cases "j < length seedSet")
    case True
    define asg1 where "asg1 = (if clusterAssignments ! (seedSet ! j) = - 1
                   then clusterAssignments[seedSet ! j := clusterId]
                   else clusterAssignments)"
    have v: "validIds c asg1" and l: "length asg1 = length clusterAssignments"
      using "1.prems" by (auto simp: asg1_def intro: validIds_update)
    have "validIds c (snd (expandCluster positions clusterId (Suc j)
              (snd (visitPoint positions (seedSet ! j) visited seedSet))
              (fst (visitPoint positions (seedSet ! j) visited seedSet)) asg1)) \<and>
          length (snd (expandCluster positions clusterId (Suc j)
              (snd (visitPoint positions (seedSet ! j) visited seedSet))
              (fst (visitPoint positions (seedSet ! j) visited seedSet)) asg1)) = length asg1"
      using "1.IH" [OF True refl refl asg1_def v "1.prems"(2,3)] .
    then show ?thesis
      using True l by (subst (1 2) expandCluster.simps) (simp add: Let_def asg1_def)
  next
    case False
    then show ?thesis using "1.prems" by (subst (1 2) expandCluster.simps) simp
  qed
qed


lemma dbscanStep_valid:
  assumes "validIds (snd (snd st)) (fst (snd st))" "0 \<le> snd (snd st)"
  shows "validIds (snd (snd (dbscanStep ps i st))) (fst (snd (dbscanStep ps i st))) \<and>
         0 \<le> snd (snd (dbscanStep ps i st)) \<and>
         length (fst (snd (dbscanStep ps i st))) = length (fst (snd st))"
proof -
  obtain v asg c where st: "st = (v, asg, c)" by (cases st) auto
  have a: "validIds c asg" "0 \<le> c" using assms by (simp_all add: st)
  show ?thesis
  proof (cases "v ! i")
    case True
    then show ?thesis using a by (simp add: dbscanStep_def st)
  next
    case False
    show ?thesis
    proof (cases "length (getNeighbors ps i) < 3 - 1")
      case True
      then show ?thesis using False a
        by (simp add: dbscanStep_def st Let_def validIds_update)
    next
      case big: False
      have "validIds (c + 1) (asg[i := c])"
        using a by (intro validIds_update validIds_mono [of c asg "c + 1"]) simp_all
      then have "validIds (c + 1) (snd (expandCluster ps c 0 (getNeighbors ps i) (v[i := True]) (asg[i := c]))) \<and>
                 length (snd (expandCluster ps c 0 (getNeighbors ps i) (v[i := True]) (asg[i := c])))
                   = length (asg[i := c])"
        using a by (intro expandCluster_valid) simp_all
      then show ?thesis using False big a
        by (simp add: dbscanStep_def st Let_def)
    qed
  qed
qed

lemma dbscan_fold_valid:
  assumes "validIds (snd (snd st)) (fst (snd st))" "0 \<le> snd (snd st)"
  shows "validIds (snd (snd (fold (dbscanStep ps) is st))) (fst (snd (fold (dbscanStep ps) is st))) \<and>
         0 \<le> snd (snd (fold (dbscanStep ps) is st)) \<and>
         length (fst (snd (fold (dbscanStep ps) is st))) = length (fst (snd st))"
  using assms
proof (induction "is" arbitrary: st)
  case Nil
  then show ?case by simp
next
  case (Cons i "is")
  have s: "validIds (snd (snd (dbscanStep ps i st))) (fst (snd (dbscanStep ps i st)))"
    "0 \<le> snd (snd (dbscanStep ps i st))"
    "length (fst (snd (dbscanStep ps i st))) = length (fst (snd st))"
    using dbscanStep_valid [OF Cons.prems] by simp_all
  show ?case using Cons.IH [OF s(1,2)] s(3) by simp
qed

lemma countAssignment_fold:
  assumes "validIds (int (length sizes)) asg"
  shows "length (fst (fold countAssignment asg (sizes, noise))) = length sizes \<and>
         sum_list (fst (fold countAssignment asg (sizes, noise)))
           = sum_list sizes + length (filter (\<lambda>a. a \<noteq> - 1) asg) \<and>
         snd (fold countAssignment asg (sizes, noise))
           = noise + length (filter (\<lambda>a. a = - 1) asg)"
  using assms
proof (induction asg arbitrary: sizes noise)
  case Nil
  then show ?case by simp
next
  case (Cons a asg)
  have rest: "validIds (int (length sizes)) asg" using Cons.prems by (simp add: validIds_def)
  show ?case
  proof (cases "a = - 1")
    case True
    then show ?thesis using Cons.IH [OF rest, of "noise + 1"]
      by (simp add: countAssignment_def)
  next
    case False
    then have "0 \<le> a \<and> a < int (length sizes)" using Cons.prems by (simp add: validIds_def)
    then have r: "nat a < length sizes" by linarith
    define sizes1 where "sizes1 = sizes[nat a := sizes ! nat a + 1]"
    have l: "length sizes1 = length sizes" by (simp add: sizes1_def)
    have s: "sum_list sizes1 = sum_list sizes + 1"
      using r by (simp add: sizes1_def sum_list_update)
    have "validIds (int (length sizes1)) asg" using rest l by simp
    from Cons.IH [OF this, of noise] show ?thesis
      using False l s by (simp add: countAssignment_def sizes1_def)
  qed
qed

lemma filter_split_length:
  "length (filter (\<lambda>a. a \<noteq> x) xs) + length (filter (\<lambda>a. a = x) xs) = length xs"
  by (induction xs) auto

text \<open>
  Claim C5. For every position list of length \<open>N\<close>, the density clustering of
  \<open>calculateClusteringMetrics\<close> (\<open>epsilon = 500\<close>, \<open>minPoints = 3\<close>) returns one assignment
  per point, each assignment is either the noise mark \<open>-1\<close> or a cluster id in
  \<open>[0, clusterCount)\<close>, there is one cluster size per cluster id, and the cluster sizes and
  the number of noise points add up to \<open>N\<close>. For the empty list the function returns
  \<open>clusterCount = 0\<close> and no arrays.
\<close>

theorem calculateClusteringMetrics_partition:
  "(let r = calculateClusteringMetrics positions
    in case (clusterAssignments r, clusterSizes r) of
         (Some asg, Some sizes) \<Rightarrow>
            length asg = length positions \<and>
            list_all (\<lambda>a. a = - 1 \<or> (0 \<le> a \<and> a < clusterCount r)) asg \<and>
            int (length sizes) = clusterCount r \<and>
            sum_list sizes + length (filter (\<lambda>a. a = - 1) asg) = length positions
       | _ \<Rightarrow> positions = [] \<and> clusterCount r = 0)"
proof (cases "positions = []")
  case True
  then show ?thesis by (simp add: calculateClusteringMetrics_def)
next
  case False
  define st0 :: "bool list \<times> int list \<times> int" where
    "st0 = (replicate (length positions) False, replicate (length positions) (- 1), 0)"
  define st where "st = fold (dbscanStep positions) [0..<length positions] st0"
  have "validIds (snd (snd st0)) (fst (snd st0))" "0 \<le> snd (snd st0)"
    by (simp_all add: st0_def validIds_def list_all_iff)
  from dbscan_fold_valid [OF this, of positions "[0..<length positions]"]
  have v: "validIds (snd (snd st)) (fst (snd st))" and c: "0 \<le> snd (snd st)"
    and l: "length (fst (snd st)) = length positions"
    by (simp_all add: st_def st0_def)
  define sizes0 :: "nat list" where "sizes0 = replicate (nat (snd (snd st))) 0"
  have "validIds (int (length sizes0)) (fst (snd st))" using v c by (simp add: sizes0_def)
  from countAssignment_fold [OF this, of 0]
  have cnt: "length (fst (fold countAssignment (fst (snd st)) (sizes0, 0))) = length sizes0"
    "sum_list (fst (fold countAssignment (fst (snd st)) (sizes0, 0)))
           = length (filter (\<lambda>a. a \<noteq> - 1) (fst (snd st)))"
    by (simp_all add: sizes0_def)
  show ?thesis
    using False v c l cnt filter_split_length [of "- 1" "fst (snd st)"]
    by (simp add: calculateClusteringMetrics_def Let_def st_def st0_def sizes0_def validIds_def)
qed

section \<open>Properties of the centroid clustering engine\<close>

text \<open>Every non-empty list of fewer than 20 positions has an empty candidate range.\<close>

lemma performKMeansClustering_empty_range:
  assumes "positions \<noteq> []" "length positions < 20"
  shows "performKMeansClustering rs n positions =
     (\<lparr>res_k = 2, res_assignments = [], res_centroids = [], res_clusterSizes = [],
       res_silhouetteScores = Some [], res_inertiaValues = Some [], res_kRange = Some []\<rparr>, n)"
proof -
  have "int (length positions) div 10 \<le> 1" using assms(2) by simp
  then have "nat (min 20 (int (length positions) div 10) - 1) = 0" by simp
  then show ?thesis using assms(1) by (simp add: performKMeansClustering_def Let_def)
qed

text \<open>
  Claim C1. The claim says that a non-empty position list whose candidate range is empty,
  a single point in particular, yields \<open>k = 0\<close>. The code returns \<open>k = 0\<close> for the empty
  list only. For one position, \<open>maxK = min(20, floor(1 / 10)) = 0\<close>, the candidate range is
  empty, the loop over it does not run, and the result carries the initial value
  \<open>optimalK = 2\<close> together with empty assignments, centroids and cluster sizes.
\<close>

theorem performKMeansClustering_single_point:
  "performKMeansClustering rs n [(0, 0, 10)] =
     (\<lparr>res_k = 2, res_assignments = [], res_centroids = [], res_clusterSizes = [],
       res_silhouetteScores = Some [], res_inertiaValues = Some [], res_kRange = Some []\<rparr>, n)"
  by (simp add: performKMeansClustering_def)

lemma closestLoop_bound:
  "best < j + length cs \<Longrightarrow> closestLoop p cs j m best < j + length cs"
proof (induction cs arbitrary: j m best)
  case Nil
  then show ?case by simp
next
  case (Cons c cs)
  have a: "closestLoop p cs (Suc j) m' j < Suc j + length cs" for m'
    by (rule Cons.IH) simp
  have b: "closestLoop p cs (Suc j) m best < Suc j + length cs"
    by (rule Cons.IH) (use Cons.prems in simp)
  show ?case using a b by (simp add: Let_def)
qed

lemma assignPoints_length: "length (assignPoints points cs) = length points"
  by (simp add: assignPoints_def)

lemma assignPoints_range:
  "cs \<noteq> [] \<Longrightarrow> list_all (\<lambda>a. 0 \<le> a \<and> a < int (length cs)) (assignPoints points cs)"
  using closestLoop_bound [of 0 0 cs]
  by (simp add: assignPoints_def list_all_iff)

lemma seedLoop_length: "length (fst (seedLoop m rs n points cs)) = length cs + m"
  by (induction m arbitrary: n cs) (simp_all add: Let_def)

lemma initializeCentroids_length:
  "points \<noteq> [] \<Longrightarrow> 1 \<le> k \<Longrightarrow> length (fst (initializeCentroids rs n points k)) = nat k"
  by (simp add: initializeCentroids_def Let_def seedLoop_length)

lemma updateCentroids_length: "length (updateCentroids points asg k cs) = length cs"
proof -
  have "length (fold (\<lambda>i cs. if P i then cs[i := f i] else cs) is cs) = length cs"
    for P :: "nat \<Rightarrow> bool" and f :: "nat \<Rightarrow> point" and "is" cs
    by (induction "is" arbitrary: cs) simp_all
  then show ?thesis by (simp add: updateCentroids_def Let_def)
qed

lemma kMeansLoop_shape:
  "length (snd (kMeansLoop fuel points k cs old asg)) = length cs \<and>
   (fst (kMeansLoop fuel points k cs old asg) = asg \<or>
    (\<exists>cs'. length cs' = length cs \<and>
           fst (kMeansLoop fuel points k cs old asg) = assignPoints points cs'))"
proof (induction fuel arbitrary: cs old asg)
  case 0
  then show ?case by simp
next
  case (Suc fuel)
  show ?case
  proof (cases "assignPoints points cs = old")
    case True
    then show ?thesis by (auto simp: Let_def)
  next
    case False
    define cs1 where "cs1 = updateCentroids points (assignPoints points cs) k cs"
    have l: "length cs1 = length cs" by (simp add: cs1_def updateCentroids_length)
    have "kMeansLoop (Suc fuel) points k cs old asg =
          kMeansLoop fuel points k cs1 (assignPoints points cs) (assignPoints points cs)"
      using False by (simp add: Let_def cs1_def)
    then show ?thesis
      using Suc.IH [of cs1 "assignPoints points cs" "assignPoints points cs"] l by auto
  qed
qed

lemma kMeansLoop_Suc:
  "\<exists>cs'. length cs' = length cs \<and>
         fst (kMeansLoop (Suc fuel) points k cs old asg) = assignPoints points cs'"
proof (cases "assignPoints points cs = old")
  case True
  then have "fst (kMeansLoop (Suc fuel) points k cs old asg) = assignPoints points cs"
    by (simp add: Let_def)
  then show ?thesis by blast
next
  case False
  define cs1 where "cs1 = updateCentroids points (assignPoints points cs) k cs"
  have l: "length cs1 = length cs" by (simp add: cs1_def updateCentroids_length)
  have "kMeansLoop (Suc fuel) points k cs old asg =
        kMeansLoop fuel points k cs1 (assignPoints points cs) (assignPoints points cs)"
    using False by (simp add: Let_def cs1_def)
  then show ?thesis
    using kMeansLoop_shape [of fuel points k cs1 "assignPoints points cs" "assignPoints points cs"] l
    by auto
qed

lemma kMeansLoop_100:
  "\<exists>cs'. length cs' = length cs \<and>
         fst (kMeansLoop 100 points k cs old asg) = assignPoints points cs'"
  using kMeansLoop_Suc [of cs 99 points k old asg] by simp

text \<open>
  Claim C7. For every non-empty position list and every \<open>k \<ge> 1\<close>, whatever values
  \<open>Math.random\<close> returns, the assignments array returned by \<open>kMeansCluster\<close> has one entry
  per point index, and every entry is a cluster id in \<open>[0, k)\<close>.
\<close>

theorem kMeansCluster_assignments_range:
  "positions \<noteq> [] \<Longrightarrow> 1 \<le> k \<Longrightarrow>
   length (km_assignments (fst (kMeansCluster rs n positions k))) = length positions \<and>
   list_all (\<lambda>a. 0 \<le> a \<and> a < k) (km_assignments (fst (kMeansCluster rs n positions k)))"
proof -
  assume p: "positions \<noteq> []" and k: "1 \<le> k"
  define points where "points = map (\<lambda>pos :: position. (fst pos, fst (snd pos))) positions"
  define cs where "cs = fst (initializeCentroids rs n points k)"
  have pn: "points \<noteq> []" using p by (simp add: points_def)
  have lc: "length cs = nat k" unfolding cs_def by (rule initializeCentroids_length [OF pn k])
  obtain cs' where cs': "length cs' = length cs"
    "fst (kMeansLoop 100 points (nat k) cs (replicate (length points) (- 1))
           (replicate (length points) (- 1))) = assignPoints points cs'"
    using kMeansLoop_100 by blast
  have r: "km_assignments (fst (kMeansCluster rs n positions k)) = assignPoints points cs'"
    using p k cs'(2) by (simp add: kMeansCluster_def Let_def points_def cs_def)
  have ne: "cs' \<noteq> []" using cs'(1) lc k by auto
  have "int (length cs') = k" using cs'(1) lc k by simp
  then show ?thesis
    unfolding r using assignPoints_range [OF ne, of points]
    by (simp add: assignPoints_length points_def)
qed

theorem kMeansCluster_assignments_range_witness:
  "[(0, 0, 10)] \<noteq> ([] :: position list) \<and> (1 :: int) \<le> 1 \<and>
   length (km_assignments (fst (kMeansCluster (\<lambda>_. rand_zero) 0 [(0, 0, 10)] 1))) = length [(0 :: real, 0 :: real, 10 :: real)] \<and>
   list_all (\<lambda>a. 0 \<le> a \<and> a < 1) (km_assignments (fst (kMeansCluster (\<lambda>_. rand_zero) 0 [(0, 0, 10)] 1)))"
  using kMeansCluster_assignments_range [of "[(0, 0, 10)]" 1 "\<lambda>_. rand_zero" 0] by simp

subsection \<open>The silhouette score\<close>

lemma distancesNonnegD:
  "distancesNonneg hav positions \<Longrightarrow> p \<in> set positions \<Longrightarrow> q \<in> set positions \<Longrightarrow>
   nonnegNumber (hav (fst p) (fst (snd p)) (fst q) (fst (snd q)))"
  by (simp add: distancesNonneg_def list_all_iff)

lemma nonnegNumber_iff: "nonnegNumber x \<longleftrightarrow> (\<exists>a. x = Number a \<and> 0 \<le> a)"
  by (cases x) (simp_all add: nonnegNumber_def)

lemma unitNumber_iff: "unitNumber x \<longleftrightarrow> (\<exists>a. x = Number a \<and> - 1 \<le> a \<and> a \<le> 1)"
  by (cases x) (simp_all add: unitNumber_def)

lemma haversineFromA_nonnegNumber: "haversineFromA a \<noteq> NaN \<Longrightarrow> nonnegNumber (haversineFromA a)"
  by (auto simp: haversineFromA_def Math_sqrt_def nonnegNumber_def atan2_nonneg split: if_splits)

lemma total_nonneg:
  "(\<And>q. q \<in> set ps \<Longrightarrow> nonnegNumber (f q)) \<Longrightarrow> nonnegNumber t \<Longrightarrow>
   nonnegNumber (fold (\<lambda>otherPoint totalDistance. js_add totalDistance (f otherPoint)) ps t)"
proof (induction ps arbitrary: t)
  case Nil
  then show ?case by simp
next
  case (Cons q ps)
  have "nonnegNumber (js_add t (f q))"
    using Cons.prems(1) [of q] Cons.prems(2) by (auto simp: nonnegNumber_iff)
  then show ?case using Cons.IH Cons.prems(1) by simp
qed

lemma average_nonneg:
  "nonnegNumber t \<Longrightarrow> 0 < n \<Longrightarrow> nonnegNumber (js_div t (Number (real n)))"
  by (auto simp: nonnegNumber_iff)

lemma sameCluster_nonneg:
  assumes "distancesNonneg hav positions"
    and "i < length positions"
  shows "nonnegNumber (calculateAverageDistanceToSameCluster hav i positions asg)"
proof -
  define same where "same = map (\<lambda>i. positions ! i)
              (filter (\<lambda>j. j \<noteq> i \<and> lookup asg j = lookup asg i) [0..<length positions])"
  have sub: "set same \<subseteq> set positions" by (auto simp: same_def)
  have pi: "positions ! i \<in> set positions" using assms(2) by simp
  have t: "nonnegNumber (fold (\<lambda>otherPoint totalDistance. js_add totalDistance
             (hav (fst (positions ! i)) (fst (snd (positions ! i))) (fst otherPoint) (fst (snd otherPoint))))
             same (Number 0))"
  proof (rule total_nonneg)
    fix q assume "q \<in> set same"
    then have "q \<in> set positions" using sub by blast
    from distancesNonnegD [OF assms(1) pi this]
    show "nonnegNumber (hav (fst (positions ! i)) (fst (snd (positions ! i))) (fst q) (fst (snd q)))" .
  qed (simp add: nonnegNumber_def)
  show ?thesis
  proof (cases "length same = 0")
    case True
    then show ?thesis
      unfolding calculateAverageDistanceToSameCluster_def Let_def same_def [symmetric]
      by (simp add: nonnegNumber_def)
  next
    case False
    then have "0 < length same" by simp
    from average_nonneg [OF t this] False show ?thesis
      unfolding calculateAverageDistanceToSameCluster_def Let_def same_def [symmetric]
      by simp
  qed
qed

lemma js_min_nearest:
  "nearest = PosInfinity \<or> nonnegNumber nearest \<Longrightarrow> nonnegNumber avg \<Longrightarrow>
   nonnegNumber (js_min nearest avg)"
  by (auto simp: nonnegNumber_iff)

lemma nearestCluster_nonneg:
  assumes "distancesNonneg hav positions"
    and "i < length positions"
  shows "nonnegNumber (calculateAverageDistanceToNearestCluster hav i positions asg cs)"
proof -
  define members where "members = (\<lambda>clusterId. map (\<lambda>i. positions ! i)
                 (filter (\<lambda>i. lookup asg i = Some (int clusterId)) [0..<length positions]))"
  define step where "step = (\<lambda>clusterId nearest.
                    if Some (int clusterId) = lookup asg i then nearest
                    else if length (members clusterId) = 0 then nearest
                         else js_min nearest
                                (js_div
                                   (fold (\<lambda>otherPoint totalDistance.
                                            js_add totalDistance
                                              (hav (fst (positions ! i))
                                                    (fst (snd (positions ! i)))
                                                    (fst otherPoint) (fst (snd otherPoint))))
                                      (members clusterId) (Number 0))
                                   (Number (real (length (members clusterId))))))"
  have fn: "calculateAverageDistanceToNearestCluster hav i positions asg cs =
            (if fold step [0..<length cs] PosInfinity = PosInfinity then Number 0
             else fold step [0..<length cs] PosInfinity)"
    unfolding calculateAverageDistanceToNearestCluster_def Let_def step_def members_def by simp
  have pi: "positions ! i \<in> set positions" using assms(2) by simp
  have st: "step c nearest = PosInfinity \<or> nonnegNumber (step c nearest)"
    if "nearest = PosInfinity \<or> nonnegNumber nearest" for c nearest
  proof -
    define pts where "pts = members c"
    have sub: "set pts \<subseteq> set positions" by (auto simp: pts_def members_def)
    have t: "nonnegNumber (fold (\<lambda>otherPoint totalDistance. js_add totalDistance
               (hav (fst (positions ! i)) (fst (snd (positions ! i))) (fst otherPoint) (fst (snd otherPoint))))
               pts (Number 0))"
    proof (rule total_nonneg)
      fix q assume "q \<in> set pts"
      then have "q \<in> set positions" using sub by blast
      from distancesNonnegD [OF assms(1) pi this]
      show "nonnegNumber (hav (fst (positions ! i)) (fst (snd (positions ! i))) (fst q) (fst (snd q)))" .
    qed (simp add: nonnegNumber_def)
    show ?thesis
    proof (cases "Some (int c) = lookup asg i \<or> length pts = 0")
      case True
      then show ?thesis using that by (auto simp: step_def pts_def)
    next
      case False
      then have "0 < length pts" by simp
      from js_min_nearest [OF that average_nonneg [OF t this]] False show ?thesis
        by (simp add: step_def pts_def)
    qed
  qed
  have inv: "fold step ids nearest = PosInfinity \<or> nonnegNumber (fold step ids nearest)"
    if "nearest = PosInfinity \<or> nonnegNumber nearest" for ids nearest
    using that
  proof (induction ids arbitrary: nearest)
    case Nil
    then show ?case by simp
  next
    case (Cons c ids)
    show ?case using Cons.IH [OF st [OF Cons.prems]] by simp
  qed
  have "fold step [0..<length cs] PosInfinity = PosInfinity \<or>
        nonnegNumber (fold step [0..<length cs] PosInfinity)"
    by (rule inv) simp
  then show ?thesis
    unfolding fn by (auto simp: nonnegNumber_def)
qed

lemma silhouetteValue_unit:
  assumes "distancesNonneg hav positions"
    and "i < length positions"
  shows "unitNumber (silhouetteValue hav i positions asg cs)"
proof -
  obtain a where a: "calculateAverageDistanceToSameCluster hav i positions asg = Number a" "0 \<le> a"
    using sameCluster_nonneg [OF assms, of asg] by (auto simp: nonnegNumber_iff)
  obtain b where b: "calculateAverageDistanceToNearestCluster hav i positions asg cs = Number b" "0 \<le> b"
    using nearestCluster_nonneg [OF assms, of asg cs] by (auto simp: nonnegNumber_iff)
  show ?thesis
  proof (cases "a = 0 \<and> b = 0")
    case True
    then show ?thesis by (simp add: silhouetteValue_def a b unitNumber_def)
  next
    case False
    then have m: "0 < max a b" using a(2) b(2) by (auto simp: max_def)
    have "- max a b \<le> b - a" "b - a \<le> max a b" using a(2) b(2) by (auto simp: max_def)
    then have r: "- 1 \<le> (b - a) / max a b" "(b - a) / max a b \<le> 1"
      using m by (simp_all add: field_simps)
    have "js_max (Number a) (Number b) = Number (max a b)" by (simp add: max_def)
    then have "silhouetteValue hav i positions asg cs = Number ((b - a) / max a b)"
      using False m by (simp add: silhouetteValue_def a b Let_def js_sub_def)
    then show ?thesis using r by (simp add: unitNumber_def)
  qed
qed

lemma sum_unit:
  assumes "\<And>v. v \<in> set vs \<Longrightarrow> unitNumber v"
  shows "\<exists>s. fold (\<lambda>b a. js_add a b) vs (Number t) = Number s \<and>
             t - real (length vs) \<le> s \<and> s \<le> t + real (length vs)"
  using assms
proof (induction vs arbitrary: t)
  case Nil
  then show ?case by simp
next
  case (Cons v vs)
  obtain x where x: "v = Number x" "- 1 \<le> x" "x \<le> 1"
    using Cons.prems [of v] by (auto simp: unitNumber_iff)
  obtain s where s: "fold (\<lambda>b a. js_add a b) vs (Number (t + x)) = Number s"
    "t + x - real (length vs) \<le> s" "s \<le> t + x + real (length vs)"
    using Cons.IH [of "t + x"] Cons.prems by auto
  show ?case using s x by (intro exI [of _ s]) simp
qed

lemma score_unit:
  assumes "distancesNonneg hav positions"
  shows "\<exists>s. calculateSilhouetteScore hav positions asg cs = Number s \<and> - 1 \<le> s \<and> s \<le> 1"
proof (cases "length positions \<le> 1 \<or> length cs \<le> 1")
  case True
  then show ?thesis by (simp add: calculateSilhouetteScore_def)
next
  case False
  define vs where "vs = map (\<lambda>i. silhouetteValue hav i positions asg cs) [0..<length positions]"
  have n: "0 < real (length vs)" using False by (auto simp: vs_def)
  have "\<And>v. v \<in> set vs \<Longrightarrow> unitNumber v"
    using silhouetteValue_unit [OF assms] by (auto simp: vs_def)
  from sum_unit [OF this, where t = 0] obtain s where
    s: "fold (\<lambda>b a. js_add a b) vs (Number 0) = Number s"
    "- real (length vs) \<le> s" "s \<le> real (length vs)" by auto
  have "- 1 \<le> s / real (length vs)" "s / real (length vs) \<le> 1"
    using n s(2,3) by (simp_all add: field_simps)
  moreover have "calculateSilhouetteScore hav positions asg cs = Number (s / real (length vs))"
    using False n s(1) by (simp add: calculateSilhouetteScore_def Let_def vs_def [symmetric])
  ultimately show ?thesis by blast
qed

lemma distancesNonneg_fp:
  assumes "\<forall>p \<in> set positions. \<forall>q \<in> set positions.
             haversineDistance_fp fa (fst p) (fst (snd p)) (fst q) (fst (snd q)) \<noteq> NaN"
  shows "distancesNonneg (haversineDistance_fp fa) positions"
  using assms
  by (simp add: distancesNonneg_def list_all_iff haversineDistance_fp_def haversineFromA_nonnegNumber)

lemma exactDistance_fp: "haversineDistance_fp hav_a = exactDistance"
  by (intro ext) (rule haversineDistance_fp_exact)

lemma exactDistance_deg:
  "\<bar>y - x\<bar> \<le> 180 \<Longrightarrow> exactDistance 0 x 0 y = Number (kmPerDegree * \<bar>y - x\<bar>)"
  by (simp add: exactDistance_def hav_deg)

text \<open>
  Claim C6, as stated, fails. The claim says that the score is exactly \<open>0\<close> whenever there
  is at most one cluster. The guard of \<open>calculateSilhouetteScore\<close> counts the centroids,
  not the clusters that hold a point. For two positions that are both in cluster \<open>0\<close>,
  with two centroids, every point has \<open>a > 0\<close> and \<open>b = 0\<close>, and the score is \<open>-1\<close>.
\<close>

theorem calculateSilhouetteScore_one_occupied_cluster:
  "calculateSilhouetteScore exactDistance [(0, 0, 10), (0, 90, 10)] [0, 0] [(0, 45), (0, 0)]
     = Number (- 1)"
proof -
  have u: "[0..<2] = [0, Suc 0]" by (simp add: eval_nat_numeral upt_rec)
  have k: "kmPerDegree * 90 \<noteq> 0" "0 < kmPerDegree * 90" using kmPerDegree_pos by simp_all
  have a: "calculateAverageDistanceToSameCluster exactDistance 0 [(0, 0, 10), (0, 90, 10)] [0, 0]
             = Number (kmPerDegree * 90)"
    "calculateAverageDistanceToSameCluster exactDistance (Suc 0) [(0, 0, 10), (0, 90, 10)] [0, 0]
             = Number (kmPerDegree * 90)"
    by (simp_all add: calculateAverageDistanceToSameCluster_def lookup_def Let_def u exactDistance_deg)
  have b: "calculateAverageDistanceToNearestCluster exactDistance 0 [(0, 0, 10), (0, 90, 10)] [0, 0]
             [(0, 45), (0, 0)] = Number 0"
    "calculateAverageDistanceToNearestCluster exactDistance (Suc 0) [(0, 0, 10), (0, 90, 10)] [0, 0]
             [(0, 45), (0, 0)] = Number 0"
    by (simp_all add: calculateAverageDistanceToNearestCluster_def lookup_def Let_def u)
  have v: "silhouetteValue exactDistance 0 [(0, 0, 10), (0, 90, 10)] [0, 0] [(0, 45), (0, 0)]
             = Number (- 1)"
    "silhouetteValue exactDistance (Suc 0) [(0, 0, 10), (0, 90, 10)] [0, 0] [(0, 45), (0, 0)]
             = Number (- 1)"
    using k kmPerDegree_pos by (simp_all add: silhouetteValue_def a b Let_def js_sub_def)
  show ?thesis
    by (simp add: calculateSilhouetteScore_def Let_def u v)
qed

text \<open>
  The claim also says that the score always lies in \<open>[-1, 1]\<close>. When a distance is \<open>NaN\<close>,
  as it is on the machine for the positions \<open>(8, -180)\<close> and \<open>(-8, 0)\<close> of claim C8, the
  score is \<open>NaN\<close>.
\<close>

lemma score_nan:
  assumes "hav 8 (- 180) (- 8) 0 = NaN"
  shows "calculateSilhouetteScore hav [(8, - 180, 1), (- 8, 0, 1)] [0, 1] [c0, c1] = NaN"
proof -
  have u: "[0..<2] = [0, Suc 0]" by (simp add: eval_nat_numeral upt_rec)
  have a: "calculateAverageDistanceToSameCluster hav 0 [(8, - 180, 1), (- 8, 0, 1)] [0, 1] = Number 0"
    by (simp add: calculateAverageDistanceToSameCluster_def lookup_def Let_def u)
  have b: "calculateAverageDistanceToNearestCluster hav 0 [(8, - 180, 1), (- 8, 0, 1)] [0, 1] [c0, c1] = NaN"
    by (simp add: calculateAverageDistanceToNearestCluster_def lookup_def Let_def u assms)
  have v: "silhouetteValue hav 0 [(8, - 180, 1), (- 8, 0, 1)] [0, 1] [c0, c1] = NaN"
    by (simp add: silhouetteValue_def a b Let_def js_sub_def)
  show ?thesis
    by (simp add: calculateSilhouetteScore_def Let_def u v)
qed

text \<open>
  Claim C6, amended. For every position list, every assignments array and every list of
  centroids: whenever \<open>haversineDistance\<close> returns a number (not \<open>NaN\<close>) for every pair of
  the positions, whatever the rounding, the score of \<open>calculateSilhouetteScore\<close> is a
  number in \<open>[-1, 1]\<close>; and the score is exactly \<open>0\<close> whenever there is at most one
  position or at most one centroid. The value of a point is \<open>(b - a) / max(a, b)\<close>, and \<open>0\<close>
  when \<open>a = b = 0\<close>, with \<open>a\<close> and \<open>b\<close> the two averages of \<open>silhouetteValue\<close>; the score is
  their mean over all points.
\<close>

theorem calculateSilhouetteScore_range_of_numbers:
  "((\<forall>p \<in> set positions. \<forall>q \<in> set positions.
       haversineDistance_fp fa (fst p) (fst (snd p)) (fst q) (fst (snd q)) \<noteq> NaN) \<longrightarrow>
    (\<exists>s. calculateSilhouetteScore (haversineDistance_fp fa) positions asg cs = Number s \<and>
         - 1 \<le> s \<and> s \<le> 1)) \<and>
   (length positions \<le> 1 \<or> length cs \<le> 1 \<longrightarrow>
    calculateSilhouetteScore hav positions asg cs = Number 0)"
proof (intro conjI impI)
  assume "\<forall>p \<in> set positions. \<forall>q \<in> set positions.
       haversineDistance_fp fa (fst p) (fst (snd p)) (fst q) (fst (snd q)) \<noteq> NaN"
  then have "distancesNonneg (haversineDistance_fp fa) positions" by (rule distancesNonneg_fp)
  then show "\<exists>s. calculateSilhouetteScore (haversineDistance_fp fa) positions asg cs = Number s \<and>
         - 1 \<le> s \<and> s \<le> 1"
    by (rule score_unit)
next
  assume "length positions \<le> 1 \<or> length cs \<le> 1"
  then show "calculateSilhouetteScore hav positions asg cs = Number 0"
    by (simp add: calculateSilhouetteScore_def)
qed

theorem calculateSilhouetteScore_range_of_numbers_witness:
  "(\<exists>s. calculateSilhouetteScore (haversineDistance_fp hav_a) [(0, 0, 10), (0, 90, 10)] [0, 1]
          [(0, 0), (0, 90)] = Number s \<and> - 1 \<le> s \<and> s \<le> 1) \<and>
   calculateSilhouetteScore exactDistance [(0, 0, 10), (0, 90, 10)] [0, 0] [(0, 45)] = Number 0"
proof -
  have h: "\<forall>p \<in> set [(0, 0, 10), (0, 90, 10 :: real)]. \<forall>q \<in> set [(0, 0, 10), (0, 90, 10 :: real)].
       haversineDistance_fp hav_a (fst p) (fst (snd p)) (fst q) (fst (snd q)) \<noteq> NaN"
    by (simp add: haversineDistance_fp_exact exactDistance_def)
  have g: "length [(0, 0, 10), (0, 90, 10 :: real)] \<le> 1 \<or> length [(0, 45 :: real)] \<le> 1"
    by simp
  show ?thesis
    using h g
      calculateSilhouetteScore_range_of_numbers
        [where positions = "[(0, 0, 10), (0, 90, 10)]" and fa = hav_a and asg = "[0, 1]"
           and cs = "[(0, 0), (0, 90)]"]
      calculateSilhouetteScore_range_of_numbers
        [where positions = "[(0, 0, 10), (0, 90, 10)]" and hav = exactDistance and asg = "[0, 0]"
           and cs = "[(0, 45)]"]
    by blast
qed

subsection \<open>Inertia across the refinement passes\<close>

text \<open>The result of the loop is the last recorded state.\<close>

lemma kMeansLoop_last_state:
  "kMeansLoop fuel points k cs old old =
     (if kMeansStates fuel points k cs old = [] then (old, cs)
      else last (kMeansStates fuel points k cs old))"
proof (induction fuel arbitrary: cs old)
  case 0
  then show ?case by simp
next
  case (Suc fuel)
  show ?case
  proof (cases "assignPoints points cs = old")
    case True
    then show ?thesis by (simp add: Let_def)
  next
    case False
    define a1 where "a1 = assignPoints points cs"
    define c1 where "c1 = updateCentroids points a1 k cs"
    have T: "kMeansStates (Suc fuel) points k cs old = (a1, c1) # kMeansStates fuel points k c1 a1"
      using False by (simp add: Let_def a1_def c1_def)
    have L: "kMeansLoop (Suc fuel) points k cs old old = kMeansLoop fuel points k c1 a1 a1"
      using False by (simp add: Let_def a1_def c1_def)
    show ?thesis
      unfolding L T Suc.IH [of c1 a1] by simp
  qed
qed





























subsection \<open>The random source\<close>

text \<open>\<open>kMeansCluster\<close> uses the random source through the seeds only.\<close>

lemma kMeansCluster_seeds:
  "fst (kMeansCluster rs n positions k) =
     (if length positions = 0 \<or> k \<le> 0
      then \<lparr>km_assignments = [], km_centroids = [], km_inertia = 0\<rparr>
      else (let points = map (\<lambda>pos. (fst pos, fst (snd pos))) positions;
                seeds = fst (initializeCentroids rs n points k);
                r = kMeansLoop 100 points (nat k) seeds
                      (replicate (length points) (- 1)) (replicate (length points) (- 1))
            in \<lparr>km_assignments = fst r, km_centroids = snd r,
                km_inertia = sumSquaredDistances points (fst r) (snd r)\<rparr>))"
  by (simp add: kMeansCluster_def Let_def)

lemma chooseNext_half: "chooseNext twoPoints [(0, 90)] (1 / 2) = 0"
proof -
  have d: "map (\<lambda>p. map_option (\<lambda>m. m * m) (nearestDistance p [(0, 90)])) twoPoints
           = [Some (8100 * kmPerDegree\<^sup>2), Some 0]"
    by (simp add: twoPoints_def nearestDistance_def min_inf_def hav_deg power2_eq_square)
  have nz: "8100 * kmPerDegree\<^sup>2 \<noteq> 0" using kmPerDegree_pos by simp
  have p: "map (\<lambda>d. d / (8100 * kmPerDegree\<^sup>2)) [8100 * kmPerDegree\<^sup>2, 0] = [1, 0]"
    using nz by simp
  have "chooseNext twoPoints [(0, 90)] (1 / 2) =
        pickNext (map (\<lambda>d. d / (8100 * kmPerDegree\<^sup>2)) [8100 * kmPerDegree\<^sup>2, 0]) 0 0 (1 / 2)"
    unfolding chooseNext_def d Let_def using nz by simp
  also have "\<dots> = 0" unfolding p by simp
  finally show ?thesis .
qed

lemma seeds_half: "fst (initializeCentroids rng_half 0 twoPoints 2) = [(0, 90), (0, 0)]"
proof -
  have "fst (initializeCentroids rng_half 0 twoPoints 2)
        = [(0, 90), twoPoints ! chooseNext twoPoints [(0, 90)] (1 / 2)]"
    by (simp add: initializeCentroids_def Math_random_def rng_half_def rand_half.rep_eq
          Let_def twoPoints_def [symmetric])
       (simp add: twoPoints_def)
  then show ?thesis using chooseNext_half by (simp add: twoPoints_def)
qed

lemma chooseNext_zero_half: "chooseNext twoPoints [(0, 0)] (1 / 2) = 1"
proof -
  have d: "map (\<lambda>p. map_option (\<lambda>m. m * m) (nearestDistance p [(0, 0)])) twoPoints
           = [Some 0, Some (8100 * kmPerDegree\<^sup>2)]"
    by (simp add: twoPoints_def nearestDistance_def min_inf_def hav_deg power2_eq_square)
  have nz: "8100 * kmPerDegree\<^sup>2 \<noteq> 0" using kmPerDegree_pos by simp
  have p: "map (\<lambda>d. d / (8100 * kmPerDegree\<^sup>2)) [0, 8100 * kmPerDegree\<^sup>2] = [0, 1]"
    using nz by simp
  have "chooseNext twoPoints [(0, 0)] (1 / 2) =
        pickNext (map (\<lambda>d. d / (8100 * kmPerDegree\<^sup>2)) [0, 8100 * kmPerDegree\<^sup>2]) 0 0 (1 / 2)"
    unfolding chooseNext_def d Let_def using nz by simp
  also have "\<dots> = 1" unfolding p by simp
  finally show ?thesis .
qed

lemma seeds_zero_half: "fst (initializeCentroids rng_zero_half 0 twoPoints 2) = [(0, 0), (0, 90)]"
proof -
  have "fst (initializeCentroids rng_zero_half 0 twoPoints 2)
        = [(0, 0), twoPoints ! chooseNext twoPoints [(0, 0)] (1 / 2)]"
    by (simp add: initializeCentroids_def Math_random_def rng_zero_half_def rand_half.rep_eq
          rand_zero.rep_eq Let_def twoPoints_def [symmetric])
       (simp add: twoPoints_def)
  then show ?thesis using chooseNext_zero_half by (simp add: twoPoints_def)
qed

lemma assign_half: "assignPoints twoPoints [(0, 90), (0, 0)] = [1, 0]"
  by (simp add: assignPoints_def twoPoints_def lt_inf_def hav_deg)

lemma assign_zero_half: "assignPoints twoPoints [(0, 0), (0, 90)] = [0, 1]"
  by (simp add: assignPoints_def twoPoints_def lt_inf_def hav_deg)

lemma update_half: "updateCentroids twoPoints [1, 0] 2 [(0, 90), (0, 0)] = [(0, 90), (0, 0)]"
  by (simp add: updateCentroids_def accumulate_def twoPoints_def Let_def eval_nat_numeral upt_rec)

lemma update_zero_half: "updateCentroids twoPoints [0, 1] 2 [(0, 0), (0, 90)] = [(0, 0), (0, 90)]"
  by (simp add: updateCentroids_def accumulate_def twoPoints_def Let_def eval_nat_numeral upt_rec)

lemma loop_half:
  "fst (kMeansLoop (Suc (Suc m)) twoPoints 2 [(0, 90), (0, 0)] [- 1, - 1] [- 1, - 1]) = [1, 0]"
  by (simp add: assign_half update_half Let_def)

lemma loop_zero_half:
  "fst (kMeansLoop (Suc (Suc m)) twoPoints 2 [(0, 0), (0, 90)] [- 1, - 1] [- 1, - 1]) = [0, 1]"
  by (simp add: assign_zero_half update_zero_half Let_def)

lemma run_half:
  "km_assignments (fst (kMeansCluster rng_half 0 [(0, 0, 10), (0, 90, 10)] 2)) = [1, 0]"
proof -
  have p: "map (\<lambda>pos :: position. (fst pos, fst (snd pos))) [(0, 0, 10), (0, 90, 10)] = twoPoints"
    by (simp add: twoPoints_def)
  have r: "replicate (length twoPoints) (- 1 :: int) = [- 1, - 1]"
    by (simp add: twoPoints_def eval_nat_numeral)
  have "fst (kMeansLoop 100 twoPoints 2 [(0, 90), (0, 0)] [- 1, - 1] [- 1, - 1]) = [1, 0]"
    using loop_half [of 98] by simp
  then show ?thesis
    unfolding kMeansCluster_seeds Let_def p r seeds_half by simp
qed

lemma run_zero_half:
  "km_assignments (fst (kMeansCluster rng_zero_half 0 [(0, 0, 10), (0, 90, 10)] 2)) = [0, 1]"
proof -
  have p: "map (\<lambda>pos :: position. (fst pos, fst (snd pos))) [(0, 0, 10), (0, 90, 10)] = twoPoints"
    by (simp add: twoPoints_def)
  have r: "replicate (length twoPoints) (- 1 :: int) = [- 1, - 1]"
    by (simp add: twoPoints_def eval_nat_numeral)
  have "fst (kMeansLoop 100 twoPoints 2 [(0, 0), (0, 90)] [- 1, - 1] [- 1, - 1]) = [0, 1]"
    using loop_zero_half [of 98] by simp
  then show ?thesis
    unfolding kMeansCluster_seeds Let_def p r seeds_zero_half by simp
qed

text \<open>
  Claim C9, as stated, fails. The claim says that \<open>initializeCentroids\<close> takes the random
  source as a parameter, so that two clustering runs on the same input give the same
  output. The function has the two parameters \<open>points\<close> and \<open>k\<close> and calls the global
  \<open>Math.random\<close>. Two runs on the same two positions with \<open>k = 2\<close> differ: when
  \<open>Math.random\<close> returns \<open>0.5\<close> and \<open>0.5\<close> the seeds are the second and the first point
  and the assignments are \<open>[1, 0]\<close>; when it returns \<open>0\<close> and \<open>0.5\<close> the seeds are the
  first and the second point and the assignments are \<open>[0, 1]\<close>.
\<close>

theorem kMeansCluster_runs_differ:
  "fst (initializeCentroids rng_half 0 [(0, 0), (0, 90)] 2)
     \<noteq> fst (initializeCentroids rng_zero_half 0 [(0, 0), (0, 90)] 2) \<and>
   km_assignments (fst (kMeansCluster rng_half 0 [(0, 0, 10), (0, 90, 10)] 2))
     \<noteq> km_assignments (fst (kMeansCluster rng_zero_half 0 [(0, 0, 10), (0, 90, 10)] 2))"
  using seeds_half seeds_zero_half by (simp add: run_half run_zero_half twoPoints_def)

lemma seedLoop_draws:
  "(\<forall>i < m. rs (n + i) = rs' (n' + i)) \<Longrightarrow>
   fst (seedLoop m rs n points cs) = fst (seedLoop m rs' n' points cs)"
proof (induction m arbitrary: n n' cs)
  case 0
  then show ?case by simp
next
  case (Suc m)
  have h: "rs n = rs' n'" using Suc.prems [rule_format, of 0] by simp
  have t: "\<forall>i < m. rs (Suc n + i) = rs' (Suc n' + i)"
    using Suc.prems by (metis Suc_less_eq add_Suc_right add_Suc_shift)
  show ?case
    using Suc.IH [OF t] by (simp add: Let_def Math_random_def h)
qed

lemma initializeCentroids_draws:
  assumes "\<forall>i < nat k. rs (n + i) = rs' (n' + i)"
  shows "fst (initializeCentroids rs n points k) = fst (initializeCentroids rs' n' points k)"
proof (cases "length points = 0 \<or> k \<le> 0")
  case True
  then show ?thesis by (auto simp: initializeCentroids_def)
next
  case False
  then have k: "nat k = Suc (nat (k - 1))" by auto
  have h: "rs n = rs' n'" using assms [rule_format, of 0] False by simp
  have t: "\<forall>i < nat (k - 1). rs (Suc n + i) = rs' (Suc n' + i)"
    using assms unfolding k by (metis Suc_less_eq add_Suc_right add_Suc_shift)
  show ?thesis
    using False seedLoop_draws [OF t] by (simp add: initializeCentroids_def Let_def Math_random_def h)
qed

text \<open>
  Claim C9, amended. Centroid seeding is the only place where randomness enters a
  clustering run: \<open>kMeansCluster\<close> uses the values of \<open>Math.random\<close> in
  \<open>initializeCentroids\<close> only, which draws \<open>k\<close> values from the global generator (no
  function takes a random source as a parameter). Two runs of \<open>kMeansCluster\<close> on the
  same positions and the same \<open>k\<close> give the same output whenever the \<open>k\<close> values drawn
  are the same.
\<close>

theorem kMeansCluster_draws:
  "(\<forall>i < nat k. rs (n + i) = rs' (n' + i)) \<Longrightarrow>
   fst (kMeansCluster rs n positions k) = fst (kMeansCluster rs' n' positions k)"
  unfolding kMeansCluster_seeds
  using initializeCentroids_draws [of k rs n rs' n'] by (simp add: Let_def)

theorem kMeansCluster_draws_witness:
  "fst (kMeansCluster rng_half 0 [(0, 0, 10), (0, 90, 10)] 2)
     = fst (kMeansCluster rng_half_zero 0 [(0, 0, 10), (0, 90, 10)] 2)"
proof -
  have h: "\<forall>i < nat 2. rng_half (0 + i) = rng_half_zero (0 + i)"
    by (simp add: rng_half_def rng_half_zero_def)
  show ?thesis
    by (rule kMeansCluster_draws [OF h])
qed

end
